theory Spec2Isabelle
  imports Complex_Main "HOL-Library.Multiset"
begin

section \<open>Strings\<close>

text \<open>
  Python strings are modelled as \<^typ>\<open>string\<close>; a character is a code point below 256.
  The helpers below are the \<^verbatim>\<open>str\<close> methods the program calls.
\<close>

definition code_point :: "char \<Rightarrow> nat" where
  "code_point c = of_char c"

definition py_isspace :: "char \<Rightarrow> bool" where
  \<comment> \<open>the characters \<^verbatim>\<open>str.strip()\<close> removes: TAB..CR, FS..US, space, NEL, NBSP\<close>
  "py_isspace c \<longleftrightarrow>
     (9 \<le> code_point c \<and> code_point c \<le> 13) \<or> (28 \<le> code_point c \<and> code_point c \<le> 32)
     \<or> code_point c = 133 \<or> code_point c = 160"

definition strip :: "string \<Rightarrow> string" where
  "strip s = rev (dropWhile py_isspace (rev (dropWhile py_isspace s)))"

fun split_sep :: "char \<Rightarrow> string \<Rightarrow> string list" where
  \<comment> \<open>\<^verbatim>\<open>s.split(sep)\<close> for a one-character separator\<close>
  "split_sep sep [] = [[]]"
| "split_sep sep (c # cs) =
     (if c = sep then [] # split_sep sep cs
      else (case split_sep sep cs of [] \<Rightarrow> [[c]] | f # fs \<Rightarrow> (c # f) # fs))"

definition split_once :: "char \<Rightarrow> string \<Rightarrow> string list" where
  \<comment> \<open>\<^verbatim>\<open>s.split(sep, 1)\<close>: cut at the first separator, if there is one\<close>
  "split_once sep s =
     (if sep \<in> set s then [takeWhile (\<lambda>c. c \<noteq> sep) s, tl (dropWhile (\<lambda>c. c \<noteq> sep) s)]
      else [s])"

fun join :: "string \<Rightarrow> string list \<Rightarrow> string" where
  \<comment> \<open>\<^verbatim>\<open>sep.join(xs)\<close>\<close>
  "join sep [] = []"
| "join sep [x] = x"
| "join sep (x # y # ys) = x @ sep @ join sep (y # ys)"

fun decimal :: "nat \<Rightarrow> string" where
  \<comment> \<open>\<^verbatim>\<open>str(n)\<close> of a natural number\<close>
  "decimal n =
     (if n < 10 then [char_of (48 + n)] else decimal (n div 10) @ [char_of (48 + n mod 10)])"

declare decimal.simps [simp del]

section \<open>utils/common.py: token validation\<close>

definition DISALLOWED_SHELL_CHARS :: "char set" where
  \<comment> \<open>\<^verbatim>\<open>set(" \t\r\n'\"`;$|&<>\\")\<close>\<close>
  "DISALLOWED_SHELL_CHARS =
     {CHR 0x20, CHR 0x09, CHR 0x0D, CHR 0x0A, CHR 0x27, CHR 0x22, CHR 0x60,
      CHR '';'', CHR ''$'', CHR ''|'', CHR ''&'', CHR ''<'', CHR ''>'', CHR 0x5C}"

definition in_range :: "char \<Rightarrow> char \<Rightarrow> char \<Rightarrow> bool" where
  \<comment> \<open>a range \<^verbatim>\<open>lo-hi\<close> of a character class\<close>
  "in_range lo hi c \<longleftrightarrow> code_point lo \<le> code_point c \<and> code_point c \<le> code_point hi"

definition zfs_token_class :: "char \<Rightarrow> bool" where
  \<comment> \<open>the class \<^verbatim>\<open>[A-Za-z0-9._:/+-]\<close>\<close>
  "zfs_token_class c \<longleftrightarrow>
     in_range (CHR ''A'') (CHR ''Z'') c \<or> in_range (CHR ''a'') (CHR ''z'') c
     \<or> in_range (CHR ''0'') (CHR ''9'') c
     \<or> c = CHR ''.'' \<or> c = CHR ''_'' \<or> c = CHR '':'' \<or> c = CHR ''/'' \<or> c = CHR ''+''
     \<or> c = CHR ''-''"

definition re_match_plus :: "(char \<Rightarrow> bool) \<Rightarrow> string \<Rightarrow> bool" where
  \<comment> \<open>\<^verbatim>\<open>re.compile("^[cls]+$").match(s)\<close>: Python's \<^verbatim>\<open>$\<close> also matches just before
      one trailing line feed\<close>
  "re_match_plus cls s \<longleftrightarrow>
     (s \<noteq> [] \<and> list_all cls s)
     \<or> (s \<noteq> [] \<and> last s = CHR 0x0A \<and> butlast s \<noteq> [] \<and> list_all cls (butlast s))"

definition SAFE_ZFS_TOKEN_RE :: "string \<Rightarrow> bool" where
  "SAFE_ZFS_TOKEN_RE = re_match_plus zfs_token_class"

definition is_safe_zfs_token :: "string \<Rightarrow> bool" where
  "is_safe_zfs_token v =
     (if v = [] then False
      else if list_ex (\<lambda>ch. ch \<in> DISALLOWED_SHELL_CHARS) v then False
      else SAFE_ZFS_TOKEN_RE v)"

text \<open>The two descriptions of a token in the specification, in its own words.\<close>

definition shell_metachars :: "char set" where
  \<comment> \<open>space, single quote, double quote, backtick, \<^verbatim>\<open>; $ | & < >\<close> and backslash\<close>
  "shell_metachars = set ('' ;$|&<>'' @ [CHR 0x27, CHR 0x22, CHR 0x60, CHR 0x5C])"

definition token_alphabet :: "string" where
  "token_alphabet =
     ''ABCDEFGHIJKLMNOPQRSTUVWXYZabcdefghijklmnopqrstuvwxyz0123456789._:/+-''"

section \<open>core/zfs\_core.py: snapshot names\<close>

definition snapshot_full_name :: "string \<Rightarrow> string \<Rightarrow> string" where
  \<comment> \<open>the f-string of \<^verbatim>\<open>create_snapshot\<close>: the dataset, \<^verbatim>\<open>@\<close>, the name\<close>
  "snapshot_full_name d n = d @ ''@'' @ n"

definition split_full_name :: "string \<Rightarrow> (string \<times> string) option" where
  \<comment> \<open>\<^verbatim>\<open>get_snapshots\<close>: a row whose name has no \<^verbatim>\<open>@\<close> is skipped, otherwise
      \<^verbatim>\<open>dataset_name, snapshot_name = full_name.split('@', 1)\<close>\<close>
  "split_full_name full =
     (if CHR ''@'' \<in> set full
      then (case split_once (CHR ''@'') full of [d, n] \<Rightarrow> Some (d, n) | _ \<Rightarrow> None)
      else None)"

section \<open>The operating system\<close>

text \<open>
  Everything the program does to the outside goes through \<^verbatim>\<open>subprocess\<close>. The outside is
  an \<open>os_env\<close>: what the \<open>k\<close>-th process started does (its exit status and output, or the
  error raised on starting it) and how long it runs, together with the library functions
  whose results the program only passes on. The \<open>world\<close> is what changes: the clock
  (\<^verbatim>\<open>time.time()\<close>, in seconds) and the list of processes started so far, oldest first.
  Logging is left out: it writes to the log file and changes nothing the program reads.
\<close>

type_synonym argv = "string list"

type_synonym datetime = nat
  \<comment> \<open>a \<^verbatim>\<open>datetime.datetime\<close>: microseconds since \<^verbatim>\<open>datetime.min\<close>\<close>

definition datetime_min :: datetime where
  "datetime_min = 0"

datatype behaviour =
    Exits int string string  \<comment> \<open>return code, standard output, standard error\<close>
  | CannotRun string          \<comment> \<open>any other exception, with its \<^verbatim>\<open>str(e)\<close>\<close>

record os_env =
  geteuid :: nat
  behaviour_of :: "nat \<Rightarrow> argv \<Rightarrow> behaviour"
  run_time :: "nat \<Rightarrow> argv \<Rightarrow> real"
  called_process_error_str :: "argv \<Rightarrow> int \<Rightarrow> string"
  timeout_expired_str :: "argv \<Rightarrow> string"
  stage_script :: "string \<Rightarrow> string + string"
  get_timestamp :: "real \<Rightarrow> string"
  strptime :: "string \<Rightarrow> string \<Rightarrow> datetime option"
  datetime_now :: "real \<Rightarrow> datetime"
  set_order :: "string list \<Rightarrow> string list"

record world =
  clock :: real
  spawned :: "argv list"

datatype run_result =
    Completed string                 \<comment> \<open>exit status 0, with the standard output\<close>
  | CalledProcessError int string    \<comment> \<open>non-zero exit status, with the standard error\<close>
  | TimeoutExpired
  | OtherException string

definition subprocess_run :: "os_env \<Rightarrow> real option \<Rightarrow> argv \<Rightarrow> world \<Rightarrow> run_result \<times> world" where
  \<comment> \<open>\<^verbatim>\<open>subprocess.run(cmd, check=True, capture_output=True, text=True, timeout=t)\<close>\<close>
  "subprocess_run env timeout cmd w =
     (let k = length (spawned w);
          w1 = w\<lparr>spawned := spawned w @ [cmd]\<rparr>
      in case behaviour_of env k cmd of
           CannotRun msg \<Rightarrow> (OtherException msg, w1)
         | Exits rc out err \<Rightarrow>
             (case timeout of
                Some t \<Rightarrow>
                  if t < run_time env k cmd then (TimeoutExpired, w1\<lparr>clock := clock w + t\<rparr>)
                  else (if rc = 0 then Completed out else CalledProcessError rc err,
                        w1\<lparr>clock := clock w + run_time env k cmd\<rparr>)
              | None \<Rightarrow>
                  (if rc = 0 then Completed out else CalledProcessError rc err,
                   w1\<lparr>clock := clock w + run_time env k cmd\<rparr>)))"

definition exception_str :: "os_env \<Rightarrow> argv \<Rightarrow> run_result \<Rightarrow> string" where
  \<comment> \<open>\<^verbatim>\<open>str(e)\<close> of the exception a run raised\<close>
  "exception_str env cmd r =
     (case r of
        Completed out \<Rightarrow> []
      | CalledProcessError rc err \<Rightarrow> called_process_error_str env cmd rc
      | TimeoutExpired \<Rightarrow> timeout_expired_str env cmd
      | OtherException msg \<Rightarrow> msg)"

definition stderr_or_str :: "os_env \<Rightarrow> argv \<Rightarrow> int \<Rightarrow> string \<Rightarrow> string" where
  \<comment> \<open>\<^verbatim>\<open>e.stderr.strip() if e.stderr else str(e)\<close>\<close>
  "stderr_or_str env cmd rc err =
     (if err \<noteq> [] then strip err else called_process_error_str env cmd rc)"

section \<open>utils/privilege\_manager.py\<close>

record PrivilegeManager =
  auth_cache_time :: real
  auth_cache_duration :: real
  session_active :: bool
  initial_auth_completed :: bool

definition new_PrivilegeManager :: PrivilegeManager where
  \<comment> \<open>\<^verbatim>\<open>__init__\<close>\<close>
  "new_PrivilegeManager =
     \<lparr>auth_cache_time = 0, auth_cache_duration = 900, session_active = False,
      initial_auth_completed = False\<rparr>"

definition is_auth_cached :: "world \<Rightarrow> PrivilegeManager \<Rightarrow> bool" where
  "is_auth_cached w pm \<longleftrightarrow> clock w - auth_cache_time pm < auth_cache_duration pm"

definition refresh_auth_cache ::
  "os_env \<Rightarrow> world \<times> PrivilegeManager \<Rightarrow> bool \<times> world \<times> PrivilegeManager" where
  "refresh_auth_cache env = (\<lambda>(w, pm).
     case subprocess_run env (Some 30) [''pkexec'', ''true''] w of
       (Completed out, w1) \<Rightarrow>
         (True, w1, pm\<lparr>auth_cache_time := clock w1, session_active := True,
                       initial_auth_completed := True\<rparr>)
     | (CalledProcessError rc err, w1) \<Rightarrow> (False, w1, pm\<lparr>session_active := False\<rparr>)
     | (TimeoutExpired, w1) \<Rightarrow> (False, w1, pm\<lparr>session_active := False\<rparr>)
     | (OtherException msg, w1) \<Rightarrow> (False, w1, pm\<lparr>session_active := False\<rparr>))"

definition command_outcome :: "os_env \<Rightarrow> argv \<Rightarrow> run_result \<Rightarrow> bool \<times> string" where
  \<comment> \<open>the return value of \<^verbatim>\<open>run_privileged_command\<close> after its \<^verbatim>\<open>subprocess.run\<close>\<close>
  "command_outcome env cmd r =
     (case r of
        Completed out \<Rightarrow> (True, strip out)
      | CalledProcessError rc err \<Rightarrow> (False, ''Command failed: '' @ stderr_or_str env cmd rc err)
      | TimeoutExpired \<Rightarrow> (False, ''Command timed out'')
      | OtherException msg \<Rightarrow> (False, ''Unexpected error: '' @ msg))"

definition run_privileged_command ::
  "os_env \<Rightarrow> argv \<Rightarrow> world \<times> PrivilegeManager \<Rightarrow> (bool \<times> string) \<times> world \<times> PrivilegeManager" where
  \<comment> \<open>\<^verbatim>\<open>ignore_errors\<close> only silences logging; \<^verbatim>\<open>input_text\<close> is the standard input of the
      process, whose behaviour \<open>behaviour_of\<close> gives\<close>
  "run_privileged_command env command = (\<lambda>(w, pm).
     if geteuid env = 0 then
       (case subprocess_run env (Some 60) command w of
          (r, w1) \<Rightarrow> (command_outcome env command r, w1, pm))
     else
       (let (authed, w1, pm1) =
              (if \<not> is_auth_cached w pm then refresh_auth_cache env (w, pm) else (True, w, pm))
        in if \<not> authed then ((False, ''Failed to obtain administrative privileges''), w1, pm1)
           else (case subprocess_run env (Some 60) (''pkexec'' # command) w1 of
                   (r, w2) \<Rightarrow> (command_outcome env (''pkexec'' # command) r, w2, pm1))))"

fun run_batch_as_root ::
  "os_env \<Rightarrow> argv list \<Rightarrow> string list \<Rightarrow> world \<Rightarrow> (bool \<times> string) \<times> world" where
  \<comment> \<open>the loop of \<^verbatim>\<open>run_batch_privileged_commands\<close> when already root\<close>
  "run_batch_as_root env [] results w = ((True, join [CHR 0x0A] results), w)"
| "run_batch_as_root env (command # rest) results w =
     (case subprocess_run env (Some 60) command w of
        (Completed out, w1) \<Rightarrow> run_batch_as_root env rest (results @ [strip out]) w1
      | (CalledProcessError rc err, w1) \<Rightarrow>
          ((False, ''Command failed: '' @ join '' '' command @ '' - ''
                     @ stderr_or_str env command rc err), w1)
      | (TimeoutExpired, w1) \<Rightarrow> ((False, ''Batch execution timed out''), w1)
      | (OtherException msg, w1) \<Rightarrow>
          ((False, ''Unexpected error in batch execution: '' @ msg), w1))"

definition escape_arg :: "string \<Rightarrow> string" where
  \<comment> \<open>each argument in single quotes, a single quote inside written \<^verbatim>\<open>'"'"'\<close>\<close>
  "escape_arg arg =
     (if CHR 0x27 \<in> set arg
      then [CHR 0x27]
           @ concat (map (\<lambda>c. if c = CHR 0x27
                               then [CHR 0x27, CHR 0x22, CHR 0x27, CHR 0x22, CHR 0x27]
                               else [c]) arg)
           @ [CHR 0x27]
      else [CHR 0x27] @ arg @ [CHR 0x27])"

definition script_content :: "argv list \<Rightarrow> string" where
  "script_content commands =
     join [CHR 0x0A]
       ([''#!/bin/bash'', ''set -e  # Exit on any error'', '''']
        @ concat (map (\<lambda>command.
            [''echo '' @ [CHR 0x27] @ ''Executing: '' @ join '' '' command @ [CHR 0x27],
             join '' '' (map escape_arg command),
             '''']) commands))"

definition run_batch_privileged_commands ::
  "os_env \<Rightarrow> argv list \<Rightarrow> world \<times> PrivilegeManager \<Rightarrow> (bool \<times> string) \<times> world \<times> PrivilegeManager" where
  \<comment> \<open>\<open>stage_script\<close> is the writing of the temporary script and its \<^verbatim>\<open>chmod\<close>: the path,
      or the \<^verbatim>\<open>str(e)\<close> of the exception raised\<close>
  "run_batch_privileged_commands env commands = (\<lambda>(w, pm).
     if commands = [] then ((True, ''No commands to execute''), w, pm)
     else if geteuid env = 0 then
       (case run_batch_as_root env commands [] w of (res, w1) \<Rightarrow> (res, w1, pm))
     else
       (let (authed, w1, pm1) =
              (if \<not> is_auth_cached w pm then refresh_auth_cache env (w, pm) else (True, w, pm))
        in if \<not> authed then ((False, ''Failed to obtain administrative privileges''), w1, pm1)
           else (case stage_script env (script_content commands) of
                   Inl msg \<Rightarrow> ((False, ''Unexpected error in batch execution: '' @ msg), w1, pm1)
                 | Inr temp_script_path \<Rightarrow>
                     (let cmd = [''pkexec'', ''bash'', temp_script_path]
                      in case subprocess_run env (Some 300) cmd w1 of
                           (Completed out, w2) \<Rightarrow> ((True, strip out), w2, pm1)
                         | (CalledProcessError rc err, w2) \<Rightarrow>
                             ((False, ''Batch execution failed: '' @ stderr_or_str env cmd rc err),
                              w2, pm1)
                         | (TimeoutExpired, w2) \<Rightarrow> ((False, ''Batch execution timed out''), w2, pm1)
                         | (OtherException msg, w2) \<Rightarrow>
                             ((False, ''Unexpected error in batch execution: '' @ msg), w2, pm1)))))"

section \<open>core/zfs\_core.py\<close>

datatype creation =
    Parsed datetime    \<comment> \<open>a \<^verbatim>\<open>datetime.datetime\<close>\<close>
  | Unparsed string    \<comment> \<open>the raw column, kept when both formats fail\<close>

record ZFSSnapshot =
  name :: string
  creation_date :: creation
  dataset :: string
  used :: string
  referenced :: string

definition full_name :: "ZFSSnapshot \<Rightarrow> string" where
  \<comment> \<open>Modelled from the spec: the class \<^verbatim>\<open>ZFSSnapshot\<close> of \<^verbatim>\<open>utils/models.py\<close> is missing;
      the specification gives \<^verbatim>\<open>fullName = dataset + "@" + name\<close>.\<close>
  "full_name s = dataset s @ ''@'' @ name s"

definition parse_creation :: "os_env \<Rightarrow> string \<Rightarrow> creation" where
  "parse_creation env creation_str =
     (case strptime env creation_str ''%a %b %d %H:%M %Y'' of
        Some d \<Rightarrow> Parsed d
      | None \<Rightarrow>
          (case strptime env creation_str ''%a %b %d %H:%M:%S %Y'' of
             Some d \<Rightarrow> Parsed d
           | None \<Rightarrow> Unparsed creation_str))"

definition parse_snapshot_line :: "os_env \<Rightarrow> string \<Rightarrow> ZFSSnapshot option" where
  \<comment> \<open>the body of the loop over the lines of the listing; \<open>None\<close> is a line skipped\<close>
  "parse_snapshot_line env line =
     (if strip line = [] then None
      else
        (let parts = split_sep (CHR 0x09) line
         in if length parts \<ge> 4 then
              (case split_full_name (parts ! 0) of
                 None \<Rightarrow> None
               | Some (dataset_name, snapshot_name) \<Rightarrow>
                   Some \<lparr>name = snapshot_name,
                         creation_date = parse_creation env (parts ! 1),
                         dataset = dataset_name,
                         used = parts ! 2,
                         referenced = parts ! 3\<rparr>)
            else None))"

definition snapshot_list_cmd :: "string \<Rightarrow> argv" where
  \<comment> \<open>the \<^verbatim>\<open>cmd\<close> of \<^verbatim>\<open>get_snapshots\<close>; the dataset is appended when it is given\<close>
  "snapshot_list_cmd ds =
     [''zfs'', ''list'', ''-H'', ''-t'', ''snapshot'', ''-o'', ''name,creation,used,referenced'']
     @ (if ds \<noteq> [] then [ds] else [])"

definition get_snapshots :: "os_env \<Rightarrow> string \<Rightarrow> world \<Rightarrow> ZFSSnapshot list \<times> world" where
  "get_snapshots env ds w =
     (let cmd = snapshot_list_cmd ds
      in case subprocess_run env None cmd w of
           (Completed out, w1) \<Rightarrow>
             (List.map_filter (parse_snapshot_line env) (split_sep (CHR 0x0A) (strip out)), w1)
         | (CalledProcessError rc err, w1) \<Rightarrow> ([], w1)
         | (TimeoutExpired, w1) \<Rightarrow> ([], w1)
         | (OtherException msg, w1) \<Rightarrow> ([], w1))"

definition create_snapshot ::
  "os_env \<Rightarrow> string \<Rightarrow> string option \<Rightarrow> world \<times> PrivilegeManager
     \<Rightarrow> (bool \<times> string) \<times> world \<times> PrivilegeManager" where
  "create_snapshot env ds name_arg = (\<lambda>(w, pm).
     if \<not> is_safe_zfs_token ds then ((False, ''Invalid dataset name''), w, pm)
     else
       (let given = (case name_arg of None \<Rightarrow> [] | Some n \<Rightarrow> n)
        in if given \<noteq> [] \<and> \<not> is_safe_zfs_token given
           then ((False, ''Invalid snapshot name''), w, pm)
           else
             (let n = (if given = [] then ''zfs-assistant-'' @ get_timestamp env (clock w)
                       else given);
                  full = snapshot_full_name ds n
              in case run_privileged_command env [''zfs'', ''snapshot'', full] (w, pm) of
                   ((success, result), w1, pm1) \<Rightarrow>
                     if \<not> success then ((False, result), w1, pm1)
                     else ((True, ''Created snapshot '' @ full), w1, pm1))))"

definition delete_snapshot ::
  "os_env \<Rightarrow> string \<Rightarrow> world \<times> PrivilegeManager \<Rightarrow> (bool \<times> string) \<times> world \<times> PrivilegeManager" where
  "delete_snapshot env full = (\<lambda>(w, pm).
     if \<not> is_safe_zfs_token full \<or> CHR ''@'' \<notin> set full
     then ((False, ''Invalid snapshot identifier''), w, pm)
     else
       (case run_privileged_command env [''zfs'', ''destroy'', full] (w, pm) of
          ((success, result), w1, pm1) \<Rightarrow>
            if \<not> success then ((False, result), w1, pm1)
            else ((True, ''Deleted snapshot '' @ full), w1, pm1)))"

definition rollback_snapshot ::
  "os_env \<Rightarrow> string \<Rightarrow> bool \<Rightarrow> world \<times> PrivilegeManager
     \<Rightarrow> (bool \<times> string) \<times> world \<times> PrivilegeManager" where
  "rollback_snapshot env full force = (\<lambda>(w, pm).
     if \<not> is_safe_zfs_token full \<or> CHR ''@'' \<notin> set full
     then ((False, ''Invalid snapshot identifier''), w, pm)
     else
       (let cmd = [''zfs'', ''rollback''] @ (if force then [''-r''] else []) @ [full]
        in case run_privileged_command env cmd (w, pm) of
             ((success, result), w1, pm1) \<Rightarrow>
               if \<not> success then ((False, result), w1, pm1)
               else ((True, ''Rolled back to snapshot '' @ full), w1, pm1)))"

definition clone_snapshot ::
  "os_env \<Rightarrow> string \<Rightarrow> string \<Rightarrow> world \<times> PrivilegeManager
     \<Rightarrow> (bool \<times> string) \<times> world \<times> PrivilegeManager" where
  "clone_snapshot env full target_name = (\<lambda>(w, pm).
     if \<not> is_safe_zfs_token full \<or> CHR ''@'' \<notin> set full
     then ((False, ''Invalid snapshot identifier''), w, pm)
     else if \<not> is_safe_zfs_token target_name
     then ((False, ''Invalid target dataset name''), w, pm)
     else
       (case run_privileged_command env [''zfs'', ''clone'', full, target_name] (w, pm) of
          ((success, result), w1, pm1) \<Rightarrow>
            if \<not> success then ((False, result), w1, pm1)
            else ((True, ''Cloned snapshot '' @ full @ '' to '' @ target_name), w1, pm1)))"

subsection \<open>Retention\<close>

definition sort_key_of :: "ZFSSnapshot \<Rightarrow> datetime" where
  \<comment> \<open>the \<^verbatim>\<open>key\<close> of both \<^verbatim>\<open>sorted\<close> calls: the creation time, \<^verbatim>\<open>datetime.min\<close> when it
      is not a \<^verbatim>\<open>datetime\<close>\<close>
  "sort_key_of x = (case creation_date x of Parsed d \<Rightarrow> d | Unparsed raw \<Rightarrow> datetime_min)"

definition sorted_reverse :: "('a \<Rightarrow> datetime) \<Rightarrow> 'a list \<Rightarrow> 'a list" where
  \<comment> \<open>\<^verbatim>\<open>sorted(xs, key=key, reverse=True)\<close>: the list is reversed, sorted stably and
      reversed again, so that equal keys keep their order\<close>
  "sorted_reverse key xs = rev (sort_key key (rev xs))"

definition age_days :: "datetime \<Rightarrow> datetime \<Rightarrow> int" where
  \<comment> \<open>\<^verbatim>\<open>(now - creation_date).days\<close>: whole days, rounded down\<close>
  "age_days now d = (int now - int d) div 86400000000"

definition should_delete :: "datetime \<Rightarrow> int \<Rightarrow> int \<Rightarrow> nat \<Rightarrow> ZFSSnapshot \<Rightarrow> bool" where
  \<comment> \<open>the body of the retention loop for the snapshot at rank \<open>i\<close>\<close>
  "should_delete now keep_count max_age_days i snapshot =
     (let flag = False;
          flag = (if int i \<ge> keep_count then True else flag);
          flag = (case creation_date snapshot of
                    Parsed d \<Rightarrow> if age_days now d > max_age_days then True else flag
                  | Unparsed raw \<Rightarrow> flag)
      in flag)"

fun retention_loop ::
  "datetime \<Rightarrow> int \<Rightarrow> int \<Rightarrow> nat \<Rightarrow> ZFSSnapshot list \<Rightarrow> ZFSSnapshot list \<Rightarrow> ZFSSnapshot list" where
  \<comment> \<open>\<^verbatim>\<open>for i, snapshot in enumerate(sorted_snapshots)\<close>, from rank \<open>i\<close> on\<close>
  "retention_loop now keep_count max_age_days i [] to_delete = to_delete"
| "retention_loop now keep_count max_age_days i (snapshot # rest) to_delete =
     retention_loop now keep_count max_age_days (Suc i) rest
       (if should_delete now keep_count max_age_days i snapshot then to_delete @ [snapshot]
        else to_delete)"

definition policy_get :: "(string \<rightharpoonup> int) \<Rightarrow> string \<Rightarrow> int \<Rightarrow> int" where
  \<comment> \<open>\<^verbatim>\<open>retention_policy.get(key, default)\<close>\<close>
  "policy_get policy k dflt = (case policy k of None \<Rightarrow> dflt | Some v \<Rightarrow> v)"

definition snapshots_to_delete ::
  "datetime \<Rightarrow> (string \<rightharpoonup> int) \<Rightarrow> ZFSSnapshot list \<Rightarrow> ZFSSnapshot list" where
  "snapshots_to_delete now retention_policy snapshots =
     (let sorted_snapshots = sorted_reverse sort_key_of snapshots;
          keep_count = policy_get retention_policy ''keep_count'' 10;
          max_age_days = policy_get retention_policy ''max_age_days'' 30
      in retention_loop now keep_count max_age_days 0 sorted_snapshots [])"

definition cleanup_snapshots ::
  "os_env \<Rightarrow> string \<Rightarrow> (string \<rightharpoonup> int) \<Rightarrow> world \<times> PrivilegeManager
     \<Rightarrow> (bool \<times> string) \<times> world \<times> PrivilegeManager" where
  "cleanup_snapshots env ds retention_policy = (\<lambda>(w, pm).
     case get_snapshots env ds w of
       (snapshots, w1) \<Rightarrow>
         if snapshots = [] then ((True, ''No snapshots found for dataset '' @ ds), w1, pm)
         else
           (let doomed = snapshots_to_delete (datetime_now env (clock w1)) retention_policy snapshots
            in if doomed = [] then ((True, ''No snapshots to clean up for dataset '' @ ds), w1, pm)
               else
                 (let delete_commands = map (\<lambda>s. [''zfs'', ''destroy'', full_name s]) doomed
                  in case run_batch_privileged_commands env delete_commands (w1, pm) of
                       ((success, batch_result), w2, pm2) \<Rightarrow>
                         if success then
                           ((True, ''Cleanup completed for '' @ ds @ '': ''
                                     @ decimal (length doomed)
                                     @ '' snapshots deleted successfully''), w2, pm2)
                         else
                           ((False, ''Cleanup failed for '' @ ds
                                      @ '': batch deletion failed - '' @ batch_result), w2, pm2))))"

section \<open>backup/zfs\_backup.py\<close>

definition popen :: "os_env \<Rightarrow> argv \<Rightarrow> world \<Rightarrow> (string + int \<times> string) \<times> world" where
  \<comment> \<open>\<^verbatim>\<open>subprocess.Popen(cmd, ...)\<close> followed by its \<^verbatim>\<open>communicate()\<close>: the exception raised
      on starting, or the return code and the standard error\<close>
  "popen env cmd w =
     (let k = length (spawned w);
          w1 = w\<lparr>spawned := spawned w @ [cmd]\<rparr>
      in case behaviour_of env k cmd of
           CannotRun msg \<Rightarrow> (Inl msg, w1)
         | Exits rc out err \<Rightarrow> (Inr (rc, err), w1\<lparr>clock := clock w + run_time env k cmd\<rparr>))"

definition send_snapshot ::
  "os_env \<Rightarrow> string \<Rightarrow> string \<Rightarrow> string option \<Rightarrow> world \<times> PrivilegeManager
     \<Rightarrow> (bool \<times> string) \<times> world \<times> PrivilegeManager" where
  "send_snapshot env snapshot_full target_pool incremental_snapshot = (\<lambda>(w, pm).
     let base = (case incremental_snapshot of None \<Rightarrow> [] | Some b \<Rightarrow> b)
     in
     if \<not> is_safe_zfs_token snapshot_full \<or> CHR ''@'' \<notin> set snapshot_full
     then ((False, ''Invalid snapshot identifier''), w, pm)
     else if \<not> is_safe_zfs_token target_pool
     then ((False, ''Invalid target pool name''), w, pm)
     else if base \<noteq> [] \<and> \<not> is_safe_zfs_token base
     then ((False, ''Invalid incremental snapshot identifier''), w, pm)
     else
       (let send_cmd = (if base \<noteq> [] then [''zfs'', ''send'', ''-i'', base, snapshot_full]
                        else [''zfs'', ''send'', snapshot_full]);
            receive_cmd = [''zfs'', ''receive'', ''-F'', target_pool]
        in case run_privileged_command env [''true''] (w, pm) of
             ((auth_success, unused), w1, pm1) \<Rightarrow>
               if \<not> auth_success
               then ((False, ''Failed to obtain administrative privileges ''
                              @ ''for ZFS send/receive operation''), w1, pm1)
               else
                 (case popen env send_cmd w1 of
                    (Inl msg, w2) \<Rightarrow>
                      ((False, ''Error executing send/receive commands: '' @ msg), w2, pm1)
                  | (Inr (send_rc, send_stderr), w2) \<Rightarrow>
                      (case popen env receive_cmd w2 of
                         (Inl msg, w3) \<Rightarrow>
                           ((False, ''Error executing send/receive commands: '' @ msg), w3, pm1)
                       | (Inr (receive_rc, receive_stderr), w3) \<Rightarrow>
                           if send_rc \<noteq> 0
                           then ((False, ''Error in send operation: '' @ send_stderr), w3, pm1)
                           else if receive_rc \<noteq> 0
                           then ((False, ''Error in receive operation: '' @ receive_stderr),
                                 w3, pm1)
                           else ((True, ''Successfully sent snapshot '' @ snapshot_full
                                         @ '' to '' @ target_pool), w3, pm1)))))"

definition by_name :: "ZFSSnapshot list \<Rightarrow> (string \<rightharpoonup> ZFSSnapshot)" where
  \<comment> \<open>\<^verbatim>\<open>{snapshot.name: snapshot for snapshot in snapshots}\<close>: a later snapshot of the same
      name replaces an earlier one\<close>
  "by_name snapshots = foldl (\<lambda>m s. m(name s \<mapsto> s)) Map.empty snapshots"

definition common_names :: "ZFSSnapshot list \<Rightarrow> ZFSSnapshot list \<Rightarrow> string list" where
  \<comment> \<open>the elements of \<^verbatim>\<open>set(source.keys()) & set(target.keys())\<close>, each once\<close>
  "common_names source_snapshots target_snapshots =
     filter (\<lambda>n. n \<in> set (map name target_snapshots)) (remdups (map name source_snapshots))"

fun latest_loop ::
  "(string \<rightharpoonup> ZFSSnapshot) \<Rightarrow> string list \<Rightarrow> ZFSSnapshot option \<Rightarrow> datetime
     \<Rightarrow> ZFSSnapshot option option" where
  \<comment> \<open>\<^verbatim>\<open>for name in common_names\<close>; the outer \<open>None\<close> is the \<^verbatim>\<open>KeyError\<close> of a name that
      is not a key\<close>
  "latest_loop m [] latest latest_date = Some latest"
| "latest_loop m (n # ns) latest latest_date =
     (case m n of
        None \<Rightarrow> None
      | Some source_snap \<Rightarrow>
          (case creation_date source_snap of
             Parsed d \<Rightarrow>
               if d > latest_date then latest_loop m ns (Some source_snap) d
               else latest_loop m ns latest latest_date
           | Unparsed raw \<Rightarrow> latest_loop m ns latest latest_date))"

definition latest_common :: "os_env \<Rightarrow> ZFSSnapshot list \<Rightarrow> ZFSSnapshot list \<Rightarrow> string option" where
  \<comment> \<open>\<^verbatim>\<open>get_latest_common_snapshot\<close> after the two listings; \<open>set_order\<close> is the order in
      which Python iterates over the set of common names\<close>
  "latest_common env source_snapshots target_snapshots =
     (let source_snapshot_names = by_name source_snapshots;
          common = set_order env (common_names source_snapshots target_snapshots)
      in if common = [] then None
         else (case latest_loop source_snapshot_names common None datetime_min of
                 None \<Rightarrow> None
               | Some None \<Rightarrow> None
               | Some (Some latest) \<Rightarrow> Some (full_name latest)))"

definition get_latest_common_snapshot ::
  "os_env \<Rightarrow> bool \<Rightarrow> string \<Rightarrow> string \<Rightarrow> world \<Rightarrow> string option \<times> world" where
  \<comment> \<open>\<open>zfs_core\<close> says whether \<^verbatim>\<open>self.zfs_core\<close> is set\<close>
  "get_latest_common_snapshot env zfs_core source_dataset target_pool w =
     (if \<not> zfs_core then (None, w)
      else
        (case get_snapshots env source_dataset w of
           (source_snapshots, w1) \<Rightarrow>
             (case get_snapshots env target_pool w1 of
                (target_snapshots, w2) \<Rightarrow>
                  (latest_common env source_snapshots target_snapshots, w2))))"

definition perform_backup ::
  "os_env \<Rightarrow> bool \<Rightarrow> string \<Rightarrow> string \<Rightarrow> world \<times> PrivilegeManager
     \<Rightarrow> (bool \<times> string) \<times> world \<times> PrivilegeManager" where
  "perform_backup env zfs_core ds target_pool = (\<lambda>(w, pm).
     if \<not> zfs_core
     then ((False, ''Backup module is not initialized with ZFS core dependency''), w, pm)
     else if \<not> is_safe_zfs_token ds then ((False, ''Invalid source dataset name''), w, pm)
     else if \<not> is_safe_zfs_token target_pool then ((False, ''Invalid target pool name''), w, pm)
     else
       (let probe = [''zfs'', ''list'', target_pool]
        in case subprocess_run env None probe w of
             (CalledProcessError rc err, w1) \<Rightarrow>
               ((False, ''Target pool '' @ [CHR 0x27] @ target_pool @ [CHR 0x27]
                          @ '' does not exist or is not accessible''), w1, pm)
           | (TimeoutExpired, w1) \<Rightarrow>
               ((False, ''Error performing backup: '' @ exception_str env probe TimeoutExpired),
                w1, pm)
           | (OtherException msg, w1) \<Rightarrow> ((False, ''Error performing backup: '' @ msg), w1, pm)
           | (Completed out, w1) \<Rightarrow>
               (case get_snapshots env ds w1 of
                  (snapshots, w2) \<Rightarrow>
                    if snapshots = []
                    then ((False, ''No snapshots found for dataset '' @ ds), w2, pm)
                    else
                      (case sorted_reverse sort_key_of snapshots of
                         [] \<Rightarrow> ((False, ''Error performing backup: list index out of range''),
                                w2, pm)
                       | latest_snapshot # others \<Rightarrow>
                           (case get_latest_common_snapshot env zfs_core ds target_pool w2 of
                              (common_snapshot, w3) \<Rightarrow>
                                (case common_snapshot of
                                   Some common \<Rightarrow>
                                     if common \<noteq> [] then
                                       (if common = full_name latest_snapshot
                                        then ((True, ''Latest snapshot ''
                                                      @ full_name latest_snapshot
                                                      @ '' already exists in target pool''),
                                              w3, pm)
                                        else send_snapshot env (full_name latest_snapshot)
                                               target_pool (Some common) (w3, pm))
                                     else send_snapshot env (full_name latest_snapshot)
                                            target_pool None (w3, pm)
                                 | None \<Rightarrow>
                                     send_snapshot env (full_name latest_snapshot)
                                       target_pool None (w3, pm)))))))"

section \<open>Process outcomes and example environments\<close>

definition exits_zero :: "os_env \<Rightarrow> nat \<Rightarrow> argv \<Rightarrow> bool" where
  \<comment> \<open>the \<open>k\<close>-th process started, running \<open>cmd\<close>, exits with status 0 within 60 seconds\<close>
  "exits_zero env k cmd \<longleftrightarrow>
     (\<exists>out err. behaviour_of env k cmd = Exits 0 out err) \<and> run_time env k cmd \<le> 60"

definition exits_nonzero :: "os_env \<Rightarrow> nat \<Rightarrow> argv \<Rightarrow> bool" where
  \<comment> \<open>it exits with a non-zero status within 60 seconds\<close>
  "exits_nonzero env k cmd \<longleftrightarrow>
     (\<exists>rc out err. rc \<noteq> 0 \<and> behaviour_of env k cmd = Exits rc out err)
     \<and> run_time env k cmd \<le> 60"

definition user_env :: os_env where
  \<comment> \<open>an unprivileged user; every process exits with status 0 after one second\<close>
  "user_env =
     \<lparr>geteuid = 1000,
      behaviour_of = (\<lambda>k cmd. Exits 0 ''done'' []),
      run_time = (\<lambda>k cmd. 1),
      called_process_error_str = (\<lambda>cmd rc. ''non-zero exit status''),
      timeout_expired_str = (\<lambda>cmd. ''timed out''),
      stage_script = (\<lambda>content. Inr ''/tmp/batch.sh''),
      get_timestamp = (\<lambda>t. ''20250101-0000''),
      strptime = (\<lambda>s fmt. None),
      datetime_now = (\<lambda>t. 0),
      set_order = (\<lambda>ns. ns)\<rparr>"

definition denied_env :: os_env where
  \<comment> \<open>the same user, whose every process exits with status 126\<close>
  "denied_env = user_env\<lparr>behaviour_of := (\<lambda>k cmd. Exits 126 [] ''Request dismissed'')\<rparr>"

definition slow_env :: os_env where
  \<comment> \<open>the same user, whose every process runs for 31 seconds\<close>
  "slow_env = user_env\<lparr>run_time := (\<lambda>k cmd. 31)\<rparr>"

definition failing_env :: os_env where
  \<comment> \<open>root; the second process started exits with status 1, the others with 0\<close>
  "failing_env =
     user_env\<lparr>geteuid := 0,
              behaviour_of :=
                (\<lambda>k cmd. if k = 1 then Exits 1 [] ''no such dataset'' else Exits 0 [] [])\<rparr>"

definition fresh_world :: world where
  "fresh_world = \<lparr>clock = 1000, spawned = []\<rparr>"

definition has_parsed_time :: "ZFSSnapshot \<Rightarrow> bool" where
  \<comment> \<open>the creation time of the snapshot was parsed\<close>
  "has_parsed_time s \<longleftrightarrow>
     (case creation_date s of Parsed d \<Rightarrow> True | Unparsed raw \<Rightarrow> False)"

definition snapshot_age_days :: "datetime \<Rightarrow> ZFSSnapshot \<Rightarrow> int" where
  \<comment> \<open>the age of a ranked snapshot in whole days, every snapshot having one: it is measured
      from the time the snapshot is ordered by, so that a snapshot with an unparseable
      creation time, ordered as the oldest, is as old as \<^verbatim>\<open>datetime.min\<close>\<close>
  "snapshot_age_days now s = age_days now (sort_key_of s)"

definition keep5_max30 :: "string \<rightharpoonup> int" where
  \<comment> \<open>the policy \<^verbatim>\<open>{'keep_count': 5, 'max_age_days': 30}\<close>\<close>
  "keep5_max30 = map_of [(''keep_count'', 5), (''max_age_days'', 30)]"

definition keep2 :: "string \<rightharpoonup> int" where
  \<comment> \<open>the policy \<^verbatim>\<open>{'keep_count': 2}\<close>\<close>
  "keep2 = map_of [(''keep_count'', 2)]"

definition day :: nat where
  \<comment> \<open>one day, in microseconds\<close>
  "day = 86400000000"

definition snap :: "string \<Rightarrow> string \<Rightarrow> creation \<Rightarrow> ZFSSnapshot" where
  "snap d n c = \<lparr>name = n, creation_date = c, dataset = d, used = ''0B'', referenced = ''96K''\<rparr>"

definition common_source_snapshots :: "ZFSSnapshot list \<Rightarrow> ZFSSnapshot list \<Rightarrow> ZFSSnapshot list" where
  \<comment> \<open>the snapshots of the source listing whose bare name is also the bare name of a
      snapshot of the target listing\<close>
  "common_source_snapshots source target = filter (\<lambda>s. name s \<in> name ` set target) source"

definition is_transfer :: "argv \<Rightarrow> bool" where
  \<comment> \<open>a \<^verbatim>\<open>zfs send\<close> or \<^verbatim>\<open>zfs receive\<close> process\<close>
  "is_transfer cmd \<longleftrightarrow> take 2 cmd = [''zfs'', ''send''] \<or> take 2 cmd = [''zfs'', ''receive'']"

definition row :: "string \<Rightarrow> string \<Rightarrow> string" where
  \<comment> \<open>one line of \<^verbatim>\<open>zfs list -H -t snapshot -o name,creation,used,referenced\<close>\<close>
  "row full created =
     full @ [CHR 0x09] @ created @ [CHR 0x09] @ ''0B'' @ [CHR 0x09] @ ''96K'' @ [CHR 0x0A]"

definition example_strptime :: "string \<Rightarrow> string \<Rightarrow> datetime option" where
  "example_strptime s fmt =
     (if fmt = ''%a %b %d %H:%M %Y''
      then map_of [(''Mon Jun 02 10:30 2025'', 1000 * day), (''Tue Jun 03 10:30 2025'', 1001 * day),
                   (''Wed Jun 04 10:30 2025'', 1002 * day)] s
      else None)"

definition listing_env :: "(string \<Rightarrow> string) \<Rightarrow> os_env" where
  \<comment> \<open>an unprivileged user; \<^verbatim>\<open>zfs list -H ... ds\<close> prints \<open>listing ds\<close>\<close>
  "listing_env listing =
     user_env\<lparr>behaviour_of :=
                (\<lambda>k cmd. if take 3 cmd = [''zfs'', ''list'', ''-H'']
                          then Exits 0 (listing (last cmd)) [] else Exits 0 [] []),
              strptime := example_strptime\<rparr>"

definition tank_abc :: "string \<Rightarrow> string" where
  \<comment> \<open>\<^verbatim>\<open>tank\<close> has the snapshots \<^verbatim>\<open>a\<close>, \<^verbatim>\<open>b\<close>, \<^verbatim>\<open>c\<close>, the pool \<^verbatim>\<open>backup\<close> has \<^verbatim>\<open>a\<close> and \<^verbatim>\<open>c\<close>\<close>
  "tank_abc ds =
     (if ds = ''tank''
      then row ''tank@a'' ''Mon Jun 02 10:30 2025'' @ row ''tank@b'' ''Tue Jun 03 10:30 2025''
           @ row ''tank@c'' ''Wed Jun 04 10:30 2025''
      else if ds = ''backup''
      then row ''backup@a'' ''Mon Jun 02 10:30 2025'' @ row ''backup@c'' ''Wed Jun 04 10:30 2025''
      else [])"

definition tank_foreign :: "string \<Rightarrow> string" where
  \<comment> \<open>\<^verbatim>\<open>tank\<close> and \<^verbatim>\<open>backup\<close> share the snapshot \<^verbatim>\<open>a\<close>, listed with a date in another
      language\<close>
  "tank_foreign ds =
     (if ds = ''tank'' then row ''tank@a'' ''Mo Jun 02 10:30 2025''
      else if ds = ''backup'' then row ''backup@a'' ''Mo Jun 02 10:30 2025''
      else [])"

definition later_than ::
  "(string \<rightharpoonup> ZFSSnapshot) \<Rightarrow> string list \<Rightarrow> datetime \<Rightarrow> ZFSSnapshot \<Rightarrow> datetime \<Rightarrow> bool" where
  \<comment> \<open>\<open>s\<close> is the snapshot of one of the names, created at the parsed time \<open>d\<close>, after \<open>ld\<close>\<close>
  "later_than m ns ld s d \<longleftrightarrow>
     (\<exists>n\<in>set ns. m n = Some s \<and> creation_date s = Parsed d \<and> ld < d)"

definition none_later :: "(string \<rightharpoonup> ZFSSnapshot) \<Rightarrow> string list \<Rightarrow> datetime \<Rightarrow> bool" where
  \<comment> \<open>no snapshot of one of the names has a parsed creation time after \<open>d\<close>\<close>
  "none_later m ns d \<longleftrightarrow>
     (\<forall>n\<in>set ns. \<forall>s' d'. m n = Some s' \<and> creation_date s' = Parsed d' \<longrightarrow> d' \<le> d)"

definition tank_behind :: "string \<Rightarrow> string" where
  \<comment> \<open>\<^verbatim>\<open>tank\<close> has the snapshots \<^verbatim>\<open>a\<close>, \<^verbatim>\<open>b\<close>, \<^verbatim>\<open>c\<close>, the pool \<^verbatim>\<open>backup\<close> has \<^verbatim>\<open>a\<close> only\<close>
  "tank_behind ds =
     (if ds = ''tank''
      then row ''tank@a'' ''Mon Jun 02 10:30 2025'' @ row ''tank@b'' ''Tue Jun 03 10:30 2025''
           @ row ''tank@c'' ''Wed Jun 04 10:30 2025''
      else if ds = ''backup'' then row ''backup@a'' ''Mon Jun 02 10:30 2025''
      else [])"

definition tank_alone :: "string \<Rightarrow> string" where
  \<comment> \<open>\<^verbatim>\<open>tank\<close> has the snapshots \<^verbatim>\<open>a\<close>, \<^verbatim>\<open>b\<close>, \<^verbatim>\<open>c\<close>, the pool \<^verbatim>\<open>backup\<close> has none\<close>
  "tank_alone ds =
     (if ds = ''tank''
      then row ''tank@a'' ''Mon Jun 02 10:30 2025'' @ row ''tank@b'' ''Tue Jun 03 10:30 2025''
           @ row ''tank@c'' ''Wed Jun 04 10:30 2025''
      else [])"

section \<open>Properties of token validation and snapshot names\<close>

lemma shell_metachars_disallowed: "shell_metachars \<subseteq> DISALLOWED_SHELL_CHARS"
  by (simp add: shell_metachars_def DISALLOWED_SHELL_CHARS_def)

lemma token_alphabet_class: "c \<in> set token_alphabet \<Longrightarrow> zfs_token_class c"
  unfolding token_alphabet_def set_simps insert_iff empty_iff
  by (elim disjE FalseE; simp add: zfs_token_class_def in_range_def code_point_def)

lemma zfs_token_class_not_disallowed:
  "zfs_token_class c \<Longrightarrow> c \<notin> DISALLOWED_SHELL_CHARS"
  by (auto simp: zfs_token_class_def DISALLOWED_SHELL_CHARS_def in_range_def code_point_def)

lemma zfs_token_class_not_at: "\<not> zfs_token_class (CHR ''@'')"
  by (simp add: zfs_token_class_def in_range_def code_point_def)

lemma zfs_token_class_not_lf: "\<not> zfs_token_class (CHR 0x0A)"
  by (simp add: zfs_token_class_def in_range_def code_point_def)

lemma metachar_rejected:
  "\<exists>c \<in> set s. c \<in> shell_metachars \<Longrightarrow> \<not> is_safe_zfs_token s"
  using shell_metachars_disallowed
  by (auto simp: is_safe_zfs_token_def list_ex_iff)

lemma alphabet_accepted:
  assumes "t \<noteq> []" and "set t \<subseteq> set token_alphabet"
  shows "is_safe_zfs_token t"
proof -
  have cls: "list_all zfs_token_class t"
    using assms(2) token_alphabet_class by (auto simp: list_all_iff)
  then have "\<not> list_ex (\<lambda>ch. ch \<in> DISALLOWED_SHELL_CHARS) t"
    using zfs_token_class_not_disallowed by (auto simp: list_all_iff list_ex_iff)
  with cls assms(1) show ?thesis
    by (simp add: is_safe_zfs_token_def SAFE_ZFS_TOKEN_RE_def re_match_plus_def)
qed

lemma empty_rejected: "\<not> is_safe_zfs_token []"
  by (simp add: is_safe_zfs_token_def)

text \<open>
  Claim C3. The token validator rejects every string that contains a space, a single or
  double quote, a backtick, \<^verbatim>\<open>;\<close>, \<^verbatim>\<open>$\<close>, \<^verbatim>\<open>|\<close>, \<^verbatim>\<open>&\<close>, \<^verbatim>\<open><\<close>, \<^verbatim>\<open>>\<close> or a backslash; it
  accepts every non-empty string made of the characters \<^verbatim>\<open>A-Z a-z 0-9 . _ : / + -\<close> only;
  and it rejects the empty string.
\<close>

theorem is_safe_zfs_token_spec:
  "((\<exists>c \<in> set s. c \<in> shell_metachars) \<longrightarrow> \<not> is_safe_zfs_token s)
   \<and> (t \<noteq> [] \<and> set t \<subseteq> set token_alphabet \<longrightarrow> is_safe_zfs_token t)
   \<and> \<not> is_safe_zfs_token []"
  using metachar_rejected [of s] alphabet_accepted [of t] empty_rejected
  by blast

theorem is_safe_zfs_token_spec_witness:
  "(\<exists>c \<in> set ''tank; rm''. c \<in> shell_metachars) \<and> \<not> is_safe_zfs_token ''tank; rm''
   \<and> ''tank/data-1'' \<noteq> [] \<and> set ''tank/data-1'' \<subseteq> set token_alphabet
   \<and> is_safe_zfs_token ''tank/data-1''"
  using is_safe_zfs_token_spec [of "''tank; rm''" "''tank/data-1''"]
  by (simp add: shell_metachars_def token_alphabet_def)

lemma safe_token_class:
  assumes "is_safe_zfs_token s" shows "list_all zfs_token_class s"
proof -
  from assms have ne: "s \<noteq> []" and nd: "\<not> list_ex (\<lambda>ch. ch \<in> DISALLOWED_SHELL_CHARS) s"
    and re: "re_match_plus zfs_token_class s"
    by (auto simp: is_safe_zfs_token_def SAFE_ZFS_TOKEN_RE_def split: if_splits)
  have "last s \<in> set s" using ne by simp
  with nd have "last s \<noteq> CHR 0x0A"
    by (auto simp: list_ex_iff DISALLOWED_SHELL_CHARS_def)
  with re show ?thesis by (simp add: re_match_plus_def)
qed

lemma safe_token_no_at: "is_safe_zfs_token s \<Longrightarrow> CHR ''@'' \<notin> set s"
  using safe_token_class [of s] zfs_token_class_not_at by (auto simp: list_all_iff)

lemma split_once_append:
  assumes "sep \<notin> set d"
  shows "split_once sep (d @ sep # n) = [d, n]"
proof -
  have "\<And>c. c \<in> set d \<Longrightarrow> c \<noteq> sep" using assms by blast
  then show ?thesis by (simp add: split_once_def)
qed

text \<open>
  Claim C9. For valid tokens \<open>d\<close> and \<open>n\<close>, neither containing \<^verbatim>\<open>@\<close>, the full name
  \<^verbatim>\<open>d@n\<close> built by \<^verbatim>\<open>create_snapshot\<close> splits back, at its first \<^verbatim>\<open>@\<close> as in
  \<^verbatim>\<open>get_snapshots\<close>, to the pair \<open>(d, n)\<close>.
\<close>

theorem full_name_round_trip:
  assumes "is_safe_zfs_token d" and "is_safe_zfs_token n"
    and "CHR ''@'' \<notin> set d" and "CHR ''@'' \<notin> set n"
  shows "split_full_name (snapshot_full_name d n) = Some (d, n)"
  using assms(3) by (simp add: split_full_name_def snapshot_full_name_def split_once_append)

theorem full_name_round_trip_witness:
  "is_safe_zfs_token ''tank/home'' \<and> is_safe_zfs_token ''daily-1'' 
   \<and> CHR ''@'' \<notin> set ''tank/home'' \<and> CHR ''@'' \<notin> set ''daily-1''
   \<and> split_full_name (snapshot_full_name ''tank/home'' ''daily-1'') = Some (''tank/home'', ''daily-1'')"
proof -
  have a: "is_safe_zfs_token ''tank/home''" by code_simp
  have b: "is_safe_zfs_token ''daily-1''" by code_simp
  have c: "CHR ''@'' \<notin> set ''tank/home''" by simp
  have d: "CHR ''@'' \<notin> set ''daily-1''" by simp
  from full_name_round_trip [OF a b c d] a b c d show ?thesis by simp
qed

section \<open>Properties of the privileged operations\<close>

text \<open>
  Claim C10. The batch executor called with an empty list of commands returns success with
  the message \<^verbatim>\<open>No commands to execute\<close>; it starts no process, asks for no
  authentication and leaves the session cache as it was: the world and the privilege
  manager are returned unchanged.
\<close>

theorem run_batch_empty:
  "run_batch_privileged_commands env [] (w, pm) = ((True, ''No commands to execute''), w, pm)"
  by (simp add: run_batch_privileged_commands_def)

lemma full_name_never_validates:
  "\<not> is_safe_zfs_token full \<or> CHR ''@'' \<notin> set full"
  using safe_token_no_at by blast

lemma delete_snapshot_rejects:
  "delete_snapshot env full (w, pm) = ((False, ''Invalid snapshot identifier''), w, pm)"
  using full_name_never_validates [of full] by (auto simp add: delete_snapshot_def)

lemma rollback_snapshot_rejects:
  "rollback_snapshot env full force (w, pm) = ((False, ''Invalid snapshot identifier''), w, pm)"
  using full_name_never_validates [of full] by (auto simp add: rollback_snapshot_def)

lemma clone_snapshot_rejects:
  "clone_snapshot env full target (w, pm) = ((False, ''Invalid snapshot identifier''), w, pm)"
  using full_name_never_validates [of full] by (auto simp add: clone_snapshot_def)

lemma send_snapshot_rejects:
  "send_snapshot env full pool base (w, pm) = ((False, ''Invalid snapshot identifier''), w, pm)"
  using full_name_never_validates [of full] by (auto simp add: send_snapshot_def)

text \<open>
  Claim C1 expects \<^verbatim>\<open>delete_snapshot\<close>, \<^verbatim>\<open>rollback_snapshot\<close> and \<^verbatim>\<open>clone_snapshot\<close> to pass
  validation on a full name \<^verbatim>\<open>dataset@name\<close> with valid parts and to hand the command to
  \<^verbatim>\<open>run_privileged_command\<close>. The three functions validate the whole full name as one
  token, and \<^verbatim>\<open>@\<close> is not in the allow-list: on \<^verbatim>\<open>tank/home@daily-1\<close>, whose parts are
  valid tokens, each returns \<^verbatim>\<open>Invalid snapshot identifier\<close> and starts no process.
\<close>

theorem full_name_operations_rejected:
  "is_safe_zfs_token ''tank/home'' \<and> is_safe_zfs_token ''daily-1'' \<and> is_safe_zfs_token ''tank/copy''
   \<and> snapshot_full_name ''tank/home'' ''daily-1'' = ''tank/home@daily-1''
   \<and> delete_snapshot env ''tank/home@daily-1'' (w, pm)
       = ((False, ''Invalid snapshot identifier''), w, pm)
   \<and> rollback_snapshot env ''tank/home@daily-1'' force (w, pm)
       = ((False, ''Invalid snapshot identifier''), w, pm)
   \<and> clone_snapshot env ''tank/home@daily-1'' ''tank/copy'' (w, pm)
       = ((False, ''Invalid snapshot identifier''), w, pm)"
proof -
  have "is_safe_zfs_token ''tank/home''" "is_safe_zfs_token ''daily-1''"
    "is_safe_zfs_token ''tank/copy''"
    by code_simp+
  then show ?thesis
    by (simp add: delete_snapshot_rejects rollback_snapshot_rejects clone_snapshot_rejects
        snapshot_full_name_def)
qed

theorem full_name_operations_rejected_witness:
  "delete_snapshot user_env ''tank/home@daily-1'' (fresh_world, new_PrivilegeManager)
     = ((False, ''Invalid snapshot identifier''), fresh_world, new_PrivilegeManager)
   \<and> rollback_snapshot user_env ''tank/home@daily-1'' True (fresh_world, new_PrivilegeManager)
     = ((False, ''Invalid snapshot identifier''), fresh_world, new_PrivilegeManager)
   \<and> clone_snapshot user_env ''tank/home@daily-1'' ''tank/copy''
       (fresh_world, new_PrivilegeManager)
     = ((False, ''Invalid snapshot identifier''), fresh_world, new_PrivilegeManager)
   \<and> spawned fresh_world = []"
  using full_name_operations_rejected [of user_env fresh_world new_PrivilegeManager True]
  by (simp add: fresh_world_def)

section \<open>Properties of the privilege broker\<close>

lemma spawned_subprocess_run:
  "subprocess_run env t cmd w = (r, w1) \<Longrightarrow> spawned w1 = spawned w @ [cmd]"
  by (auto simp: subprocess_run_def Let_def split: behaviour.splits option.splits if_splits)

lemma subprocess_run_exit_zero:
  assumes "behaviour_of env (length (spawned w)) cmd = Exits 0 out err"
    and "run_time env (length (spawned w)) cmd \<le> t"
  shows "\<exists>w1. subprocess_run env (Some t) cmd w = (Completed out, w1)"
  using assms by (simp add: subprocess_run_def Let_def)

lemma subprocess_run_exit_nonzero:
  assumes "behaviour_of env (length (spawned w)) cmd = Exits rc out err" and "rc \<noteq> 0"
    and "run_time env (length (spawned w)) cmd \<le> t"
  shows "\<exists>w1. subprocess_run env (Some t) cmd w = (CalledProcessError rc err, w1)"
  using assms by (simp add: subprocess_run_def Let_def)

lemma run_batch_as_root_trace:
  assumes "i \<le> length cs"
    and "\<forall>j<i. exits_zero env (length (spawned w) + j) (cs ! j)"
    and "i < length cs \<longrightarrow> exits_nonzero env (length (spawned w) + i) (cs ! i)"
  shows "\<exists>msg w'. run_batch_as_root env cs results w = ((i = length cs, msg), w')
           \<and> spawned w' = spawned w @ take (Suc i) cs"
  using assms
proof (induction cs arbitrary: i results w)
  case Nil
  then show ?case by simp
next
  case (Cons c cs)
  show ?case
  proof (cases i)
    case 0
    with Cons.prems(3) obtain rc out err where
      "rc \<noteq> 0" "behaviour_of env (length (spawned w)) c = Exits rc out err"
      "run_time env (length (spawned w)) c \<le> 60"
      by (auto simp: exits_nonzero_def)
    from subprocess_run_exit_nonzero [OF this(2) this(1) this(3)]
    obtain w1 where r: "subprocess_run env (Some 60) c w = (CalledProcessError rc err, w1)"
      by blast
    with spawned_subprocess_run [OF r] 0 show ?thesis by simp
  next
    case (Suc i')
    from Cons.prems(2) Suc have "exits_zero env (length (spawned w) + 0) ((c # cs) ! 0)"
      by blast
    then obtain out err where
      "behaviour_of env (length (spawned w)) c = Exits 0 out err"
      "run_time env (length (spawned w)) c \<le> 60"
      by (auto simp: exits_zero_def)
    from subprocess_run_exit_zero [OF this]
    obtain w1 where r: "subprocess_run env (Some 60) c w = (Completed out, w1)" by blast
    have sp: "spawned w1 = spawned w @ [c]" by (rule spawned_subprocess_run [OF r])
    have a: "i' \<le> length cs" using Cons.prems(1) Suc by simp
    have b: "\<forall>j<i'. exits_zero env (length (spawned w1) + j) (cs ! j)"
    proof (intro allI impI)
      fix j assume "j < i'"
      then have "Suc j < i" using Suc by simp
      with Cons.prems(2) have "exits_zero env (length (spawned w) + Suc j) ((c # cs) ! Suc j)"
        by blast
      then show "exits_zero env (length (spawned w1) + j) (cs ! j)" by (simp add: sp)
    qed
    have c: "i' < length cs \<longrightarrow> exits_nonzero env (length (spawned w1) + i') (cs ! i')"
      using Cons.prems(3) Suc by (simp add: sp)
    from Cons.IH [OF a b c, of "results @ [strip out]"]
    obtain msg w' where
      "run_batch_as_root env cs (results @ [strip out]) w1 = ((i' = length cs, msg), w')"
      "spawned w' = spawned w1 @ take (Suc i') cs" by blast
    then show ?thesis using r sp Suc by simp
  qed
qed

text \<open>
  Claim C7. A non-empty batch run as root: the commands are started one after the other in
  the order given. When the first \<open>i\<close> commands exit with status 0 and command \<open>i\<close> exits
  with a non-zero status, the processes started are exactly commands \<open>0\<close> to \<open>i\<close>, none of
  the remaining ones, and the batch is reported as failed. (With \<open>i\<close> the length of the
  batch, no command fails: all are started, in order, and the batch succeeds.)
\<close>

theorem batch_as_root_fails_fast:
  assumes "geteuid env = 0" and "commands \<noteq> []" and "i \<le> length commands"
    and "\<forall>j<i. exits_zero env (length (spawned w) + j) (commands ! j)"
    and "i < length commands \<longrightarrow> exits_nonzero env (length (spawned w) + i) (commands ! i)"
  shows "\<exists>msg w'. run_batch_privileged_commands env commands (w, pm)
                     = ((i = length commands, msg), w', pm)
           \<and> spawned w' = spawned w @ take (Suc i) commands"
proof -
  from run_batch_as_root_trace [OF assms(3) assms(4) assms(5), of "[]"]
  obtain msg w' where "run_batch_as_root env commands [] w = ((i = length commands, msg), w')"
    "spawned w' = spawned w @ take (Suc i) commands" by blast
  then show ?thesis using assms(1,2) by (simp add: run_batch_privileged_commands_def)
qed

theorem batch_as_root_fails_fast_witness:
  "geteuid failing_env = 0
   \<and> [[''zfs'', ''destroy'', ''a''], [''zfs'', ''destroy'', ''b''], [''zfs'', ''destroy'', ''c'']] \<noteq> []
   \<and> (\<exists>msg w'. run_batch_privileged_commands failing_env
         [[''zfs'', ''destroy'', ''a''], [''zfs'', ''destroy'', ''b''], [''zfs'', ''destroy'', ''c'']]
         (fresh_world, new_PrivilegeManager) = ((False, msg), w', new_PrivilegeManager)
       \<and> spawned w' = [[''zfs'', ''destroy'', ''a''], [''zfs'', ''destroy'', ''b'']])"
  using batch_as_root_fails_fast [of failing_env
      "[[''zfs'', ''destroy'', ''a''], [''zfs'', ''destroy'', ''b''], [''zfs'', ''destroy'', ''c'']]"
      1 fresh_world new_PrivilegeManager]
  by (simp add: failing_env_def user_env_def fresh_world_def exits_zero_def exits_nonzero_def)

lemma refresh_auth_cache_success:
  assumes "subprocess_run env (Some 30) [''pkexec'', ''true''] w = (Completed out, w1)"
  shows "refresh_auth_cache env (w, pm)
           = (True, w1, pm\<lparr>auth_cache_time := clock w1, session_active := True,
                            initial_auth_completed := True\<rparr>)"
  using assms by (simp add: refresh_auth_cache_def)

lemma refresh_auth_cache_failure:
  assumes "subprocess_run env (Some 30) [''pkexec'', ''true''] w = (probe, w1)"
    and "\<forall>out. probe \<noteq> Completed out"
  shows "refresh_auth_cache env (w, pm) = (False, w1, pm\<lparr>session_active := False\<rparr>)"
  using assms by (cases probe) (simp_all add: refresh_auth_cache_def)

lemma auth_error_distinct:
  "command_outcome env cmd r \<noteq> (False, ''Failed to obtain administrative privileges'')"
  by (cases r) (simp_all add: command_outcome_def)

text \<open>
  Claim C6. A privileged call made by a process that is not root, with the session cache
  expired (the default duration is 900 seconds): the authentication probe \<^verbatim>\<open>pkexec true\<close>
  is started exactly once, before the command. When the probe succeeds, the time of
  authentication is set to the clock read when the probe returned and the session becomes
  active, then the command runs through \<^verbatim>\<open>pkexec\<close>. When the probe fails (non-zero exit,
  timeout or any other exception), the session is inactive, the command is not started and
  the call returns the authentication error, a result that no executed command can return.
\<close>

theorem expired_session_reauthenticates_once:
  assumes "geteuid env \<noteq> 0"
    and "auth_cache_duration pm \<le> clock w - auth_cache_time pm"
    and "subprocess_run env (Some 30) [''pkexec'', ''true''] w = (probe, w1)"
    and "run_privileged_command env command (w, pm) = (res, w', pm')"
  shows "((\<exists>out. probe = Completed out) \<longrightarrow>
            spawned w' = spawned w @ [[''pkexec'', ''true''], ''pkexec'' # command]
            \<and> auth_cache_time pm' = clock w1 \<and> session_active pm'
            \<and> (res, w') = (case subprocess_run env (Some 60) (''pkexec'' # command) w1 of
                             (r, w2) \<Rightarrow> (command_outcome env (''pkexec'' # command) r, w2)))
       \<and> ((\<forall>out. probe \<noteq> Completed out) \<longrightarrow>
            spawned w' = spawned w @ [[''pkexec'', ''true'']]
            \<and> \<not> session_active pm' \<and> auth_cache_time pm' = auth_cache_time pm
            \<and> res = (False, ''Failed to obtain administrative privileges'')
            \<and> (\<forall>cmd r. command_outcome env cmd r \<noteq> res))"
proof (intro conjI impI)
  have expired: "\<not> is_auth_cached w pm" using assms(2) by (simp add: is_auth_cached_def)
  have sp1: "spawned w1 = spawned w @ [[''pkexec'', ''true'']]"
    by (rule spawned_subprocess_run [OF assms(3)])
  {
    assume "\<exists>out. probe = Completed out"
    then obtain out where "probe = Completed out" by blast
    with assms(3) have ok: "refresh_auth_cache env (w, pm)
           = (True, w1, pm\<lparr>auth_cache_time := clock w1, session_active := True,
                            initial_auth_completed := True\<rparr>)"
      by (simp add: refresh_auth_cache_success)
    obtain r w2 where run: "subprocess_run env (Some 60) (''pkexec'' # command) w1 = (r, w2)"
      by (cases "subprocess_run env (Some 60) (''pkexec'' # command) w1") blast
    from assms(1,4) expired ok run
    have eq: "res = command_outcome env (''pkexec'' # command) r" "w' = w2"
      "pm' = pm\<lparr>auth_cache_time := clock w1, session_active := True,
                   initial_auth_completed := True\<rparr>"
      by (auto simp: run_privileged_command_def)
    from eq spawned_subprocess_run [OF run] sp1
    show "spawned w' = spawned w @ [[''pkexec'', ''true''], ''pkexec'' # command]" by simp
    from eq show "auth_cache_time pm' = clock w1" by simp
    from eq show "session_active pm'" by simp
    from eq run
    show "(res, w') = (case subprocess_run env (Some 60) (''pkexec'' # command) w1 of
                         (r, w2) \<Rightarrow> (command_outcome env (''pkexec'' # command) r, w2))"
      by simp
  }
  {
    assume "\<forall>out. probe \<noteq> Completed out"
    with assms(3) have "refresh_auth_cache env (w, pm) = (False, w1, pm\<lparr>session_active := False\<rparr>)"
      by (rule refresh_auth_cache_failure)
    with assms(1,4) expired
    have eq: "res = (False, ''Failed to obtain administrative privileges'')" "w' = w1"
      "pm' = pm\<lparr>session_active := False\<rparr>"
      by (auto simp: run_privileged_command_def)
    from eq sp1 show "spawned w' = spawned w @ [[''pkexec'', ''true'']]" by simp
    from eq show "\<not> session_active pm'" by simp
    from eq show "auth_cache_time pm' = auth_cache_time pm" by simp
    from eq show "res = (False, ''Failed to obtain administrative privileges'')" by simp
    from eq show "\<forall>cmd r. command_outcome env cmd r \<noteq> res"
      by (simp add: auth_error_distinct)
  }
qed

theorem expired_session_reauthenticates_once_witness:
  "geteuid user_env \<noteq> 0 \<and> geteuid denied_env \<noteq> 0 \<and> geteuid slow_env \<noteq> 0
   \<and> auth_cache_duration new_PrivilegeManager = 900
   \<and> auth_cache_duration new_PrivilegeManager
        \<le> clock fresh_world - auth_cache_time new_PrivilegeManager
   \<and> (\<exists>w' pm'. run_privileged_command user_env [''zfs'', ''snapshot'', ''tank@s'']
                    (fresh_world, new_PrivilegeManager) = ((True, ''done''), w', pm')
          \<and> spawned w' = [[''pkexec'', ''true''], [''pkexec'', ''zfs'', ''snapshot'', ''tank@s'']]
          \<and> auth_cache_time pm' = 1001 \<and> session_active pm')
   \<and> (\<exists>w' pm'. run_privileged_command denied_env [''zfs'', ''snapshot'', ''tank@s'']
                    (fresh_world, new_PrivilegeManager)
                  = ((False, ''Failed to obtain administrative privileges''), w', pm')
          \<and> spawned w' = [[''pkexec'', ''true'']] \<and> \<not> session_active pm')
   \<and> (\<exists>w' pm'. run_privileged_command slow_env [''zfs'', ''snapshot'', ''tank@s'']
                    (fresh_world, new_PrivilegeManager)
                  = ((False, ''Failed to obtain administrative privileges''), w', pm')
          \<and> spawned w' = [[''pkexec'', ''true'']] \<and> \<not> session_active pm')"
proof -
  let ?cmd = "[''zfs'', ''snapshot'', ''tank@s'']"
  let ?probe = "\<lambda>env. subprocess_run env (Some 30) [''pkexec'', ''true''] fresh_world"
  let ?run = "\<lambda>env. run_privileged_command env ?cmd (fresh_world, new_PrivilegeManager)"
  have exp: "auth_cache_duration new_PrivilegeManager
        \<le> clock fresh_world - auth_cache_time new_PrivilegeManager"
    by (simp add: new_PrivilegeManager_def fresh_world_def)
  have u: "geteuid user_env \<noteq> 0" by (simp add: user_env_def)
  have d: "geteuid denied_env \<noteq> 0" by (simp add: denied_env_def user_env_def)
  have s: "geteuid slow_env \<noteq> 0" by (simp add: slow_env_def user_env_def)
  have pu: "?probe user_env = (Completed ''done'', \<lparr>clock = 1001, spawned = [[''pkexec'', ''true'']]\<rparr>)"
    by (simp add: subprocess_run_def user_env_def fresh_world_def)
  have pd: "?probe denied_env = (CalledProcessError 126 ''Request dismissed'',
              \<lparr>clock = 1001, spawned = [[''pkexec'', ''true'']]\<rparr>)"
    by (simp add: subprocess_run_def denied_env_def user_env_def fresh_world_def)
  have ps: "?probe slow_env = (TimeoutExpired, \<lparr>clock = 1030, spawned = [[''pkexec'', ''true'']]\<rparr>)"
    by (simp add: subprocess_run_def slow_env_def user_env_def fresh_world_def)
  have ru: "?run user_env = (fst (?run user_env), fst (snd (?run user_env)), snd (snd (?run user_env)))"
    by simp
  have rd: "?run denied_env = (fst (?run denied_env), fst (snd (?run denied_env)), snd (snd (?run denied_env)))"
    by simp
  have rs: "?run slow_env = (fst (?run slow_env), fst (snd (?run slow_env)), snd (snd (?run slow_env)))"
    by simp
  have cu: "subprocess_run user_env (Some 60) (''pkexec'' # ?cmd)
              \<lparr>clock = 1001, spawned = [[''pkexec'', ''true'']]\<rparr>
            = (Completed ''done'', \<lparr>clock = 1002, spawned = [[''pkexec'', ''true''], ''pkexec'' # ?cmd]\<rparr>)"
    by (simp add: subprocess_run_def user_env_def)
  have strip_done: "strip ''done'' = ''done''"
    by (simp add: strip_def py_isspace_def code_point_def)
  note tu = expired_session_reauthenticates_once [OF u exp pu ru]
  note td = expired_session_reauthenticates_once [OF d exp pd rd]
  note ts = expired_session_reauthenticates_once [OF s exp ps rs]
  have gu: "\<exists>w' pm'. ?run user_env = ((True, ''done''), w', pm')
          \<and> spawned w' = [[''pkexec'', ''true''], [''pkexec'', ''zfs'', ''snapshot'', ''tank@s'']]
          \<and> auth_cache_time pm' = 1001 \<and> session_active pm'"
    using tu cu strip_done
    by (intro exI [where x = "fst (snd (?run user_env))"] exI [where x = "snd (snd (?run user_env))"])
       (simp add: fresh_world_def command_outcome_def prod_eq_iff)
  have gd: "\<exists>w' pm'. ?run denied_env = ((False, ''Failed to obtain administrative privileges''), w', pm')
          \<and> spawned w' = [[''pkexec'', ''true'']] \<and> \<not> session_active pm'"
    using td
    by (intro exI [where x = "fst (snd (?run denied_env))"] exI [where x = "snd (snd (?run denied_env))"])
       (simp add: fresh_world_def prod_eq_iff)
  have gs: "\<exists>w' pm'. ?run slow_env = ((False, ''Failed to obtain administrative privileges''), w', pm')
          \<and> spawned w' = [[''pkexec'', ''true'']] \<and> \<not> session_active pm'"
    using ts
    by (intro exI [where x = "fst (snd (?run slow_env))"] exI [where x = "snd (snd (?run slow_env))"])
       (simp add: fresh_world_def prod_eq_iff)
  have dur: "auth_cache_duration new_PrivilegeManager = 900"
    by (simp add: new_PrivilegeManager_def)
  from u d s dur exp gu gd gs show ?thesis by blast
qed

section \<open>Properties of retention\<close>

lemma should_delete_union:
  "should_delete now keep_count max_age_days i s
     \<longleftrightarrow> int i \<ge> keep_count \<or> (has_parsed_time s \<and> snapshot_age_days now s > max_age_days)"
  by (cases "creation_date s")
     (auto simp: should_delete_def has_parsed_time_def snapshot_age_days_def sort_key_of_def)

lemma retention_loop_filter:
  "retention_loop now k m i xs acc
     = acc @ map snd (filter (\<lambda>(j, s). int j \<ge> k \<or> (has_parsed_time s \<and> snapshot_age_days now s > m)) (enumerate i xs))"
proof (induction xs arbitrary: i acc)
  case Nil
  then show ?case by simp
next
  case (Cons x xs)
  show ?case by (simp add: Cons.IH should_delete_union)
qed

lemma sorted_reverse_mset: "mset (sorted_reverse key xs) = mset xs"
  by (simp add: sorted_reverse_def)

lemma sorted_reverse_descending:
  assumes "i \<le> j" and "j < length xs"
  shows "key (sorted_reverse key xs ! j) \<le> key (sorted_reverse key xs ! i)"
proof -
  let ?ys = "sorted_reverse key xs"
  have len: "length ?ys = length xs" by (simp add: sorted_reverse_def)
  have "sorted (rev (map key ?ys))"
    by (simp add: sorted_reverse_def rev_map [symmetric])
  from sorted_rev_nth_mono [OF this assms(1)] assms len
  show ?thesis by simp
qed

lemma unparsed_sorts_oldest:
  "creation_date s = Unparsed raw \<Longrightarrow> sort_key_of s \<le> sort_key_of s'"
  by (simp add: sort_key_of_def datetime_min_def)

text \<open>
  Claim C4, as the code has it. The retention engine sorts the snapshots by creation time,
  newest first: the sorted list is a rearrangement of the input in which the sort keys
  never increase, and a snapshot whose creation time could not be parsed has the smallest
  key there is, so it is ordered as the oldest. The snapshots marked for deletion are
  exactly those at a rank \<open>i\<close> of that list with \<open>i \<ge> keep_count\<close>, or with a parsed
  creation time and an age in whole days above \<open>max_age_days\<close>, in that order: the union
  of the two tests. A snapshot whose creation time could not be parsed is marked by its
  rank alone.
\<close>

theorem retention_marks_union:
  "mset (sorted_reverse sort_key_of snapshots) = mset snapshots
   \<and> (\<forall>i j. i \<le> j \<and> j < length snapshots \<longrightarrow>
          sort_key_of (sorted_reverse sort_key_of snapshots ! j)
            \<le> sort_key_of (sorted_reverse sort_key_of snapshots ! i))
   \<and> (\<forall>s raw s'. creation_date s = Unparsed raw \<longrightarrow> sort_key_of s \<le> sort_key_of s')
   \<and> snapshots_to_delete now policy snapshots
       = map snd (filter (\<lambda>(i, s). int i \<ge> policy_get policy ''keep_count'' 10
                              \<or> (has_parsed_time s
                                  \<and> snapshot_age_days now s > policy_get policy ''max_age_days'' 30))
                    (enumerate 0 (sorted_reverse sort_key_of snapshots)))"
proof (intro conjI allI impI)
  show "mset (sorted_reverse sort_key_of snapshots) = mset snapshots"
    by (rule sorted_reverse_mset)
next
  fix i j assume "i \<le> j \<and> j < length snapshots"
  then show "sort_key_of (sorted_reverse sort_key_of snapshots ! j)
            \<le> sort_key_of (sorted_reverse sort_key_of snapshots ! i)"
    using sorted_reverse_descending by blast
next
  fix s s' :: ZFSSnapshot and raw assume "creation_date s = Unparsed raw"
  then show "sort_key_of s \<le> sort_key_of s'" by (rule unparsed_sorts_oldest)
next
  show "snapshots_to_delete now policy snapshots
       = map snd (filter (\<lambda>(i, s). int i \<ge> policy_get policy ''keep_count'' 10
                              \<or> (has_parsed_time s
                                  \<and> snapshot_age_days now s > policy_get policy ''max_age_days'' 30))
                    (enumerate 0 (sorted_reverse sort_key_of snapshots)))"
    by (simp add: snapshots_to_delete_def retention_loop_filter)
qed

lemma example_sorted:
  "sorted_reverse sort_key_of
     [snap ''tank'' ''raw'' (Unparsed ''gestern''), snap ''tank'' ''d40'' (Parsed (60 * day)),
      snap ''tank'' ''d1'' (Parsed (99 * day))]
     = [snap ''tank'' ''d1'' (Parsed (99 * day)), snap ''tank'' ''d40'' (Parsed (60 * day)),
        snap ''tank'' ''raw'' (Unparsed ''gestern'')]"
  by (simp add: sorted_reverse_def sort_key_of_def snap_def day_def datetime_min_def)

lemma example_ages:
  "snapshot_age_days (100 * day) (snap ''tank'' ''d40'' (Parsed (60 * day))) = 40"
  "snapshot_age_days (100 * day) (snap ''tank'' ''d1'' (Parsed (99 * day))) = 1"
  "snapshot_age_days (100 * day) (snap ''tank'' ''raw'' (Unparsed ''gestern'')) = 100"
  by (simp_all add: snapshot_age_days_def sort_key_of_def snap_def day_def age_days_def
      datetime_min_def)

lemma example_parsed:
  "has_parsed_time (snap ''tank'' ''d40'' (Parsed (60 * day)))"
  "has_parsed_time (snap ''tank'' ''d1'' (Parsed (99 * day)))"
  "\<not> has_parsed_time (snap ''tank'' ''raw'' (Unparsed ''gestern''))"
  by (simp_all add: has_parsed_time_def snap_def)

lemma example_policies:
  "policy_get keep5_max30 ''keep_count'' 10 = 5" "policy_get keep5_max30 ''max_age_days'' 30 = 30"
  "policy_get keep2 ''keep_count'' 10 = 2" "policy_get keep2 ''max_age_days'' 30 = 30"
  by (simp_all add: policy_get_def keep5_max30_def keep2_def)

lemma example_deleted:
  "snapshots_to_delete (100 * day) keep5_max30
       [snap ''tank'' ''raw'' (Unparsed ''gestern''), snap ''tank'' ''d40'' (Parsed (60 * day)),
        snap ''tank'' ''d1'' (Parsed (99 * day))]
     = [snap ''tank'' ''d40'' (Parsed (60 * day))]"
  by (simp add: snapshots_to_delete_def retention_loop_filter example_sorted example_ages
      example_parsed example_policies)

theorem retention_marks_union_witness:
  "sorted_reverse sort_key_of
     [snap ''tank'' ''raw'' (Unparsed ''gestern''), snap ''tank'' ''d40'' (Parsed (60 * day)),
      snap ''tank'' ''d1'' (Parsed (99 * day))]
     = [snap ''tank'' ''d1'' (Parsed (99 * day)), snap ''tank'' ''d40'' (Parsed (60 * day)),
        snap ''tank'' ''raw'' (Unparsed ''gestern'')]
   \<and> snapshots_to_delete (100 * day) keep5_max30
       [snap ''tank'' ''raw'' (Unparsed ''gestern''), snap ''tank'' ''d40'' (Parsed (60 * day)),
        snap ''tank'' ''d1'' (Parsed (99 * day))]
     = [snap ''tank'' ''d40'' (Parsed (60 * day))]
   \<and> snapshots_to_delete (100 * day) keep2
       [snap ''tank'' ''raw'' (Unparsed ''gestern''), snap ''tank'' ''d40'' (Parsed (60 * day)),
        snap ''tank'' ''d1'' (Parsed (99 * day))]
     = [snap ''tank'' ''d40'' (Parsed (60 * day)), snap ''tank'' ''raw'' (Unparsed ''gestern'')]"
proof -
  let ?xs = "[snap ''tank'' ''raw'' (Unparsed ''gestern''), snap ''tank'' ''d40'' (Parsed (60 * day)),
      snap ''tank'' ''d1'' (Parsed (99 * day))]"
  from retention_marks_union [of ?xs "100 * day" keep5_max30]
  have a: "snapshots_to_delete (100 * day) keep5_max30 ?xs
     = [snap ''tank'' ''d40'' (Parsed (60 * day))]"
    by (simp add: example_sorted example_ages example_parsed example_policies)
  from retention_marks_union [of ?xs "100 * day" keep2]
  have b: "snapshots_to_delete (100 * day) keep2 ?xs
     = [snap ''tank'' ''d40'' (Parsed (60 * day)), snap ''tank'' ''raw'' (Unparsed ''gestern'')]"
    by (simp add: example_sorted example_ages example_parsed example_policies)
  from example_sorted a b show ?thesis by blast
qed

theorem retention_unparsed_counterexample:
  "sorted_reverse sort_key_of
     [snap ''tank'' ''raw'' (Unparsed ''gestern''), snap ''tank'' ''d40'' (Parsed (60 * day)),
      snap ''tank'' ''d1'' (Parsed (99 * day))]
     = [snap ''tank'' ''d1'' (Parsed (99 * day)), snap ''tank'' ''d40'' (Parsed (60 * day)),
        snap ''tank'' ''raw'' (Unparsed ''gestern'')]
   \<and> snapshot_age_days (100 * day) (snap ''tank'' ''raw'' (Unparsed ''gestern''))
       > policy_get keep5_max30 ''max_age_days'' 30
   \<and> snap ''tank'' ''raw'' (Unparsed ''gestern'')
       \<notin> set (snapshots_to_delete (100 * day) keep5_max30
                 [snap ''tank'' ''raw'' (Unparsed ''gestern''),
                  snap ''tank'' ''d40'' (Parsed (60 * day)),
                  snap ''tank'' ''d1'' (Parsed (99 * day))])
   \<and> \<not> (snap ''tank'' ''raw'' (Unparsed ''gestern'')
            \<in> set (snapshots_to_delete (100 * day) keep5_max30
                      [snap ''tank'' ''raw'' (Unparsed ''gestern''),
                       snap ''tank'' ''d40'' (Parsed (60 * day)),
                       snap ''tank'' ''d1'' (Parsed (99 * day))])
          \<longleftrightarrow> (int 2 \<ge> policy_get keep5_max30 ''keep_count'' 10
               \<or> snapshot_age_days (100 * day) (snap ''tank'' ''raw'' (Unparsed ''gestern''))
                   > policy_get keep5_max30 ''max_age_days'' 30))"
proof -
  have "snap ''tank'' ''raw'' (Unparsed ''gestern'') \<noteq> snap ''tank'' ''d40'' (Parsed (60 * day))"
    by (simp add: snap_def)
  then show ?thesis
    by (simp add: example_sorted example_deleted example_ages example_policies)
qed

section \<open>Properties of replication\<close>

lemmas eval_defs = get_snapshots_def snapshot_list_cmd_def subprocess_run_def
  parse_snapshot_line_def strip_def py_isspace_def code_point_def split_full_name_def
  split_once_def parse_creation_def listing_env_def user_env_def example_strptime_def snap_def
  row_def List.map_filter_def fresh_world_def

lemma tank_abc_source:
  "get_snapshots (listing_env tank_abc) ''tank'' \<lparr>clock = c, spawned = sp\<rparr>
    = ([snap ''tank'' ''a'' (Parsed (1000 * day)), snap ''tank'' ''b'' (Parsed (1001 * day)),
        snap ''tank'' ''c'' (Parsed (1002 * day))],
       \<lparr>clock = c + 1, spawned = sp @ [snapshot_list_cmd ''tank'']\<rparr>)"
  by (simp add: eval_defs tank_abc_def)

lemma tank_abc_target:
  "get_snapshots (listing_env tank_abc) ''backup'' \<lparr>clock = c, spawned = sp\<rparr>
    = ([snap ''backup'' ''a'' (Parsed (1000 * day)), snap ''backup'' ''c'' (Parsed (1002 * day))],
       \<lparr>clock = c + 1, spawned = sp @ [snapshot_list_cmd ''backup'']\<rparr>)"
  by (simp add: eval_defs tank_abc_def)

lemma tank_foreign_source:
  "get_snapshots (listing_env tank_foreign) ''tank'' \<lparr>clock = c, spawned = sp\<rparr>
    = ([snap ''tank'' ''a'' (Unparsed ''Mo Jun 02 10:30 2025'')],
       \<lparr>clock = c + 1, spawned = sp @ [snapshot_list_cmd ''tank'']\<rparr>)"
  by (simp add: eval_defs tank_foreign_def)

lemma tank_foreign_target:
  "get_snapshots (listing_env tank_foreign) ''backup'' \<lparr>clock = c, spawned = sp\<rparr>
    = ([snap ''backup'' ''a'' (Unparsed ''Mo Jun 02 10:30 2025'')],
       \<lparr>clock = c + 1, spawned = sp @ [snapshot_list_cmd ''backup'']\<rparr>)"
  by (simp add: eval_defs tank_foreign_def)


lemma foldl_by_name_dom:
  "dom (foldl (\<lambda>m s. m(name s \<mapsto> s)) m0 xs) = dom m0 \<union> name ` set xs"
  by (induction xs arbitrary: m0) auto

lemma dom_by_name: "dom (by_name xs) = name ` set xs"
  by (simp add: by_name_def foldl_by_name_dom)

lemma set_common_names:
  "set (common_names source target) = name ` set source \<inter> name ` set target"
  by (auto simp: common_names_def)

lemma later_than_Cons:
  "later_than m (n # ns) ld s d \<longleftrightarrow>
     (m n = Some s \<and> creation_date s = Parsed d \<and> ld < d) \<or> later_than m ns ld s d"
  by (auto simp: later_than_def)

lemma none_later_Cons:
  "none_later m (n # ns) d \<longleftrightarrow>
     (\<forall>s' d'. m n = Some s' \<and> creation_date s' = Parsed d' \<longrightarrow> d' \<le> d) \<and> none_later m ns d"
  by (auto simp: none_later_def)

lemma later_than_mono: "later_than m ns ld' s d \<Longrightarrow> ld \<le> ld' \<Longrightarrow> later_than m ns ld s d"
  by (auto simp: later_than_def)

lemma later_than_bound: "later_than m ns ld s d \<Longrightarrow> ld < d"
  by (auto simp: later_than_def)

lemma not_later_none_later:
  "\<not> (\<exists>s d. later_than m ns d0 s d) \<Longrightarrow> none_later m ns d0"
  unfolding later_than_def none_later_def by (meson not_le_imp_less)

lemma latest_loop_result:
  assumes "\<forall>n\<in>set ns. m n \<noteq> None"
  shows "\<exists>r. latest_loop m ns latest ld = Some r
     \<and> ((\<exists>s d. later_than m ns ld s d)
          \<longrightarrow> (\<exists>s d. later_than m ns ld s d \<and> r = Some s \<and> none_later m ns d))
     \<and> (\<not> (\<exists>s d. later_than m ns ld s d) \<longrightarrow> r = latest)"
  using assms
proof (induction ns arbitrary: latest ld)
  case Nil
  then show ?case by (simp add: later_than_def)
next
  case (Cons n ns)
  from Cons.prems obtain s0 where s0: "m n = Some s0" by auto
  have rest: "\<forall>n\<in>set ns. m n \<noteq> None" using Cons.prems by simp
  have skip: ?case
    if step: "latest_loop m (n # ns) latest ld = latest_loop m ns latest ld"
      and older: "\<And>d. creation_date s0 = Parsed d \<Longrightarrow> d \<le> ld"
  proof -
    from Cons.IH [OF rest, of latest ld] obtain r where
      r: "latest_loop m ns latest ld = Some r"
      and some: "(\<exists>s d. later_than m ns ld s d)
          \<longrightarrow> (\<exists>s d. later_than m ns ld s d \<and> r = Some s \<and> none_later m ns d)"
      and none: "\<not> (\<exists>s d. later_than m ns ld s d) \<longrightarrow> r = latest"
      by blast
    have same: "later_than m (n # ns) ld s d \<longleftrightarrow> later_than m ns ld s d" for s d
    proof -
      have "\<not> (m n = Some s \<and> creation_date s = Parsed d \<and> ld < d)"
      proof
        assume a: "m n = Some s \<and> creation_date s = Parsed d \<and> ld < d"
        with s0 have "creation_date s0 = Parsed d" by simp
        from older [OF this] a show False by simp
      qed
      then show ?thesis unfolding later_than_Cons by blast
    qed
    have bound: "none_later m (n # ns) d" if "none_later m ns d" "later_than m ns ld s d" for s d
    proof -
      have "ld < d" by (rule later_than_bound [OF that(2)])
      have "d' \<le> d" if b: "m n = Some s' \<and> creation_date s' = Parsed d'" for s' d'
      proof -
        from b s0 have "creation_date s0 = Parsed d'" by simp
        from older [OF this] \<open>ld < d\<close> show ?thesis by simp
      qed
      then have "\<forall>s' d'. m n = Some s' \<and> creation_date s' = Parsed d' \<longrightarrow> d' \<le> d"
        by blast
      with that(1) show ?thesis by (simp add: none_later_Cons)
    qed
    from r step have "latest_loop m (n # ns) latest ld = Some r" by simp
    moreover have "(\<exists>s d. later_than m (n # ns) ld s d)
          \<longrightarrow> (\<exists>s d. later_than m (n # ns) ld s d \<and> r = Some s \<and> none_later m (n # ns) d)"
      using some bound unfolding same by blast
    moreover have "\<not> (\<exists>s d. later_than m (n # ns) ld s d) \<longrightarrow> r = latest"
      using none unfolding same by blast
    ultimately show ?thesis by blast
  qed
  show ?case
  proof (cases "creation_date s0")
    case (Unparsed raw)
    with s0 show ?thesis by (intro skip) simp_all
  next
    case (Parsed d0)
    show ?thesis
    proof (cases "ld < d0")
      case False
      with s0 Parsed show ?thesis by (intro skip) simp_all
    next
      case True
      have step: "latest_loop m (n # ns) latest ld = latest_loop m ns (Some s0) d0"
        using s0 Parsed True by simp
      have here: "later_than m (n # ns) ld s0 d0"
        using s0 Parsed True by (simp add: later_than_Cons)
      from Cons.IH [OF rest, of "Some s0" d0] obtain r where
        r: "latest_loop m ns (Some s0) d0 = Some r"
        and some: "(\<exists>s d. later_than m ns d0 s d)
            \<longrightarrow> (\<exists>s d. later_than m ns d0 s d \<and> r = Some s \<and> none_later m ns d)"
        and none: "\<not> (\<exists>s d. later_than m ns d0 s d) \<longrightarrow> r = Some s0"
        by blast
      have "\<exists>s d. later_than m (n # ns) ld s d \<and> r = Some s \<and> none_later m (n # ns) d"
      proof (cases "\<exists>s d. later_than m ns d0 s d")
        case True
        with some obtain s d where
          sd: "later_than m ns d0 s d" "r = Some s" "none_later m ns d" by blast
        have "later_than m (n # ns) ld s d"
          using later_than_mono [OF sd(1), of ld] \<open>ld < d0\<close> by (simp add: later_than_Cons)
        moreover have "none_later m (n # ns) d"
          using sd(3) s0 Parsed later_than_bound [OF sd(1)] by (simp add: none_later_Cons)
        ultimately show ?thesis using sd(2) by blast
      next
        case False
        with none have "r = Some s0" by blast
        moreover have "none_later m (n # ns) d0"
          using not_later_none_later [OF False] s0 Parsed by (simp add: none_later_Cons)
        ultimately show ?thesis using here by blast
      qed
      with r step here show ?thesis by auto
    qed
  qed
qed


lemma foldl_by_name_Some:
  "foldl (\<lambda>m s. m(name s \<mapsto> s)) m0 xs n = Some s
     \<Longrightarrow> (s \<in> set xs \<and> name s = n) \<or> m0 n = Some s"
proof (induction xs arbitrary: m0)
  case Nil
  then show ?case by simp
next
  case (Cons x xs)
  from Cons.IH [of "m0(name x \<mapsto> x)"] Cons.prems
  have "(s \<in> set xs \<and> name s = n) \<or> (m0(name x \<mapsto> x)) n = Some s" by simp
  then show ?case by (auto split: if_splits)
qed

lemma by_name_Some: "by_name xs n = Some s \<Longrightarrow> s \<in> set xs \<and> name s = n"
  using foldl_by_name_Some [of Map.empty xs n s] by (simp add: by_name_def)

lemma latest_common_without_parsed_time:
  assumes order: "set (set_order env (common_names source target))
                    = set (common_names source target)"
    and unparsed: "\<forall>s \<in> set (common_source_snapshots source target). \<not> has_parsed_time s"
  shows "latest_common env source target = None"
proof -
  let ?m = "by_name source"
  let ?common = "set_order env (common_names source target)"
  have sc: "set ?common = name ` set source \<inter> name ` set target"
    using order by (simp add: set_common_names)
  have keys: "\<forall>n\<in>set ?common. ?m n \<noteq> None"
  proof
    fix n assume "n \<in> set ?common"
    with sc have "n \<in> dom ?m" by (simp add: dom_by_name)
    then show "?m n \<noteq> None" by blast
  qed
  have none_dated: "\<not> (\<exists>s d. later_than ?m ?common datetime_min s d)"
  proof
    assume "\<exists>s d. later_than ?m ?common datetime_min s d"
    then obtain s d n where n: "n \<in> set ?common" and m: "?m n = Some s"
      and p: "creation_date s = Parsed d"
      by (auto simp: later_than_def)
    from by_name_Some [OF m] have "s \<in> set source" "name s = n" by simp_all
    with n sc have "s \<in> set (common_source_snapshots source target)"
      by (simp add: common_source_snapshots_def)
    with unparsed have "\<not> has_parsed_time s" by blast
    with p show False by (simp add: has_parsed_time_def)
  qed
  from latest_loop_result [OF keys, of None datetime_min] none_dated
  have "latest_loop ?m ?common None datetime_min = Some None" by blast
  then show ?thesis by (simp add: latest_common_def Let_def)
qed

text \<open>
  Claim C5 expects, whenever the two listings share a bare snapshot name, the source-side
  full name of the common snapshot created last. In the code, with both listings available
  and at least one common snapshot: when no common snapshot of the source listing has a
  parsed creation time, \<^verbatim>\<open>get_latest_common_snapshot\<close> returns nothing, where its
  documentation promises nothing only if no common snapshot exists.
\<close>

theorem common_snapshots_without_parsed_time_ignored:
  assumes "\<forall>ns. set (set_order env ns) = set ns"
    and "get_snapshots env src w = (source, w1)"
    and "get_snapshots env pool w1 = (target, w2)"
    and "common_source_snapshots source target \<noteq> []"
    and "\<forall>s \<in> set (common_source_snapshots source target). \<not> has_parsed_time s"
  shows "get_latest_common_snapshot env True src pool w = (None, w2)"
proof -
  have order: "set (set_order env (common_names source target)) = set (common_names source target)"
    using assms(1) by blast
  from latest_common_without_parsed_time [OF order assms(5)] assms(2,3)
  show ?thesis by (simp add: get_latest_common_snapshot_def)
qed

theorem common_snapshots_without_parsed_time_ignored_witness:
  "(\<forall>ns. set (set_order (listing_env tank_foreign) ns) = set ns)
   \<and> get_snapshots (listing_env tank_foreign) ''tank'' fresh_world
       = ([snap ''tank'' ''a'' (Unparsed ''Mo Jun 02 10:30 2025'')],
          \<lparr>clock = 1001, spawned = [snapshot_list_cmd ''tank'']\<rparr>)
   \<and> get_snapshots (listing_env tank_foreign) ''backup''
         \<lparr>clock = 1001, spawned = [snapshot_list_cmd ''tank'']\<rparr>
       = ([snap ''backup'' ''a'' (Unparsed ''Mo Jun 02 10:30 2025'')],
          \<lparr>clock = 1002, spawned = [snapshot_list_cmd ''tank'', snapshot_list_cmd ''backup'']\<rparr>)
   \<and> common_source_snapshots [snap ''tank'' ''a'' (Unparsed ''Mo Jun 02 10:30 2025'')]
         [snap ''backup'' ''a'' (Unparsed ''Mo Jun 02 10:30 2025'')]
       = [snap ''tank'' ''a'' (Unparsed ''Mo Jun 02 10:30 2025'')]
   \<and> get_latest_common_snapshot (listing_env tank_foreign) True ''tank'' ''backup'' fresh_world
       = (None, \<lparr>clock = 1002, spawned = [snapshot_list_cmd ''tank'', snapshot_list_cmd ''backup'']\<rparr>)"
proof -
  let ?env = "listing_env tank_foreign"
  let ?src = "[snap ''tank'' ''a'' (Unparsed ''Mo Jun 02 10:30 2025'')]"
  let ?tgt = "[snap ''backup'' ''a'' (Unparsed ''Mo Jun 02 10:30 2025'')]"
  let ?w1 = "\<lparr>clock = 1001, spawned = [snapshot_list_cmd ''tank'']\<rparr>"
  let ?w2 = "\<lparr>clock = 1002, spawned = [snapshot_list_cmd ''tank'', snapshot_list_cmd ''backup'']\<rparr>"
  have h1: "\<forall>ns. set (set_order ?env ns) = set ns"
    by (simp add: listing_env_def user_env_def)
  have h2: "get_snapshots ?env ''tank'' fresh_world = (?src, ?w1)"
    using tank_foreign_source [of 1000 "[]"] by (simp add: fresh_world_def)
  have h3: "get_snapshots ?env ''backup'' ?w1 = (?tgt, ?w2)"
    using tank_foreign_target [of 1001 "[snapshot_list_cmd ''tank'']"] by simp
  have cs: "common_source_snapshots ?src ?tgt = ?src"
    by (simp add: common_source_snapshots_def snap_def)
  have h4: "common_source_snapshots ?src ?tgt \<noteq> []"
    by (simp add: cs)
  have h5: "\<forall>s \<in> set (common_source_snapshots ?src ?tgt). \<not> has_parsed_time s"
    unfolding cs by (simp add: has_parsed_time_def snap_def)
  from common_snapshots_without_parsed_time_ignored [OF h1 h2 h3 h4 h5] h1 h2 h3 cs
  show ?thesis by blast
qed

section \<open>Properties of the backup\<close>

lemma spawned_get_snapshots:
  "get_snapshots env d w = (xs, w') \<Longrightarrow> spawned w' = spawned w @ [snapshot_list_cmd d]"
  by (auto simp: get_snapshots_def Let_def dest: spawned_subprocess_run
           split: prod.splits run_result.splits)

lemma spawned_get_latest_common_snapshot:
  assumes "get_latest_common_snapshot env True src pool w = (r, w')"
  shows "spawned w' = spawned w @ [snapshot_list_cmd src, snapshot_list_cmd pool]"
proof -
  obtain s1 w1 where a: "get_snapshots env src w = (s1, w1)"
    by (cases "get_snapshots env src w") blast
  obtain s2 w2 where b: "get_snapshots env pool w1 = (s2, w2)"
    by (cases "get_snapshots env pool w1") blast
  from assms a b have "w' = w2" by (simp add: get_latest_common_snapshot_def)
  with spawned_get_snapshots [OF a] spawned_get_snapshots [OF b] show ?thesis by simp
qed

lemma not_transfer_list_cmd: "\<not> is_transfer (snapshot_list_cmd d)"
  by (simp add: is_transfer_def snapshot_list_cmd_def)

lemma not_transfer_probe: "\<not> is_transfer [''zfs'', ''list'', pool]"
  by (simp add: is_transfer_def)

lemma full_name_nonempty: "full_name s \<noteq> []"
  by (simp add: full_name_def)

lemma perform_backup_reaches_choice:
  assumes "is_safe_zfs_token ds" and "is_safe_zfs_token pool"
    and "subprocess_run env None [''zfs'', ''list'', pool] w = (Completed out, w1)"
    and "get_snapshots env ds w1 = (snapshots, w2)" and "snapshots \<noteq> []"
    and "sorted_reverse sort_key_of snapshots = latest # others"
    and "get_latest_common_snapshot env True ds pool w2 = (common, w3)"
  shows "perform_backup env True ds pool (w, pm)
           = (case common of
                Some c \<Rightarrow>
                  if c \<noteq> [] then
                    (if c = full_name latest
                     then ((True, ''Latest snapshot '' @ full_name latest
                                   @ '' already exists in target pool''), w3, pm)
                     else send_snapshot env (full_name latest) pool (Some c) (w3, pm))
                  else send_snapshot env (full_name latest) pool None (w3, pm)
              | None \<Rightarrow> send_snapshot env (full_name latest) pool None (w3, pm))"
    and "spawned w3 = spawned w @ [[''zfs'', ''list'', pool], snapshot_list_cmd ds,
                                    snapshot_list_cmd ds, snapshot_list_cmd pool]"
proof -
  show "perform_backup env True ds pool (w, pm)
           = (case common of
                Some c \<Rightarrow>
                  if c \<noteq> [] then
                    (if c = full_name latest
                     then ((True, ''Latest snapshot '' @ full_name latest
                                   @ '' already exists in target pool''), w3, pm)
                     else send_snapshot env (full_name latest) pool (Some c) (w3, pm))
                  else send_snapshot env (full_name latest) pool None (w3, pm)
              | None \<Rightarrow> send_snapshot env (full_name latest) pool None (w3, pm))"
    using assms by (simp add: perform_backup_def)
  from spawned_subprocess_run [OF assms(3)] spawned_get_snapshots [OF assms(4)]
    spawned_get_latest_common_snapshot [OF assms(7)]
  show "spawned w3 = spawned w @ [[''zfs'', ''list'', pool], snapshot_list_cmd ds,
                                    snapshot_list_cmd ds, snapshot_list_cmd pool]"
    by simp
qed

text \<open>
  Claim C8. For a valid dataset and a valid, reachable target pool with at least one source
  snapshot: when the common snapshot found is the newest source snapshot, \<^verbatim>\<open>perform_backup\<close>
  returns success with the message that the latest snapshot already exists in the target
  pool. The processes it has started are the existence probe and three snapshot listings;
  none of them is a \<^verbatim>\<open>zfs send\<close> or a \<^verbatim>\<open>zfs receive\<close>.
\<close>

theorem backup_noop_when_latest_is_common:
  assumes "is_safe_zfs_token ds" and "is_safe_zfs_token pool"
    and "subprocess_run env None [''zfs'', ''list'', pool] w = (Completed out, w1)"
    and "get_snapshots env ds w1 = (snapshots, w2)" and "snapshots \<noteq> []"
    and "sorted_reverse sort_key_of snapshots = latest # others"
    and "get_latest_common_snapshot env True ds pool w2 = (Some (full_name latest), w3)"
  shows "perform_backup env True ds pool (w, pm)
           = ((True, ''Latest snapshot '' @ full_name latest @ '' already exists in target pool''),
              w3, pm)
       \<and> spawned w3 = spawned w @ [[''zfs'', ''list'', pool], snapshot_list_cmd ds,
                                     snapshot_list_cmd ds, snapshot_list_cmd pool]
       \<and> \<not> list_ex is_transfer (drop (length (spawned w)) (spawned w3))"
proof -
  note r = perform_backup_reaches_choice [OF assms]
  from r(1) have "perform_backup env True ds pool (w, pm)
           = ((True, ''Latest snapshot '' @ full_name latest @ '' already exists in target pool''),
              w3, pm)"
    by (simp add: full_name_nonempty)
  with r(2) show ?thesis by (simp add: not_transfer_list_cmd not_transfer_probe)
qed

text \<open>
  Claim C2 expects an incremental send from the common snapshot when it differs from the
  newest source snapshot, a full send when there is none, and the send to succeed. In the
  code, for a valid dataset and a valid, reachable target pool with at least one source
  snapshot, whenever the common snapshot is not the newest one, \<^verbatim>\<open>perform_backup\<close> returns
  the failure \<^verbatim>\<open>Invalid snapshot identifier\<close> of \<^verbatim>\<open>send_snapshot\<close>, which validates the full
  name \<^verbatim>\<open>dataset@name\<close> against an allow-list without \<^verbatim>\<open>@\<close>: neither \<^verbatim>\<open>zfs send\<close> nor
  \<^verbatim>\<open>zfs receive\<close> is started.
\<close>

theorem backup_send_always_rejected:
  assumes "is_safe_zfs_token ds" and "is_safe_zfs_token pool"
    and "subprocess_run env None [''zfs'', ''list'', pool] w = (Completed out, w1)"
    and "get_snapshots env ds w1 = (snapshots, w2)" and "snapshots \<noteq> []"
    and "sorted_reverse sort_key_of snapshots = latest # others"
    and "get_latest_common_snapshot env True ds pool w2 = (common, w3)"
    and "common \<noteq> Some (full_name latest)"
  shows "perform_backup env True ds pool (w, pm)
           = ((False, ''Invalid snapshot identifier''), w3, pm)
       \<and> spawned w3 = spawned w @ [[''zfs'', ''list'', pool], snapshot_list_cmd ds,
                                     snapshot_list_cmd ds, snapshot_list_cmd pool]
       \<and> \<not> list_ex is_transfer (drop (length (spawned w)) (spawned w3))"
proof -
  note r = perform_backup_reaches_choice [OF assms(1-7)]
  from r(1) assms(8) have "perform_backup env True ds pool (w, pm)
           = ((False, ''Invalid snapshot identifier''), w3, pm)"
    by (cases common) (simp_all add: send_snapshot_rejects)
  with r(2) show ?thesis by (simp add: not_transfer_list_cmd not_transfer_probe)
qed

lemma tank_source_listing:
  assumes "f ''tank'' = row ''tank@a'' ''Mon Jun 02 10:30 2025''
                         @ row ''tank@b'' ''Tue Jun 03 10:30 2025''
                         @ row ''tank@c'' ''Wed Jun 04 10:30 2025''"
  shows "get_snapshots (listing_env f) ''tank'' \<lparr>clock = c, spawned = sp\<rparr>
    = ([snap ''tank'' ''a'' (Parsed (1000 * day)), snap ''tank'' ''b'' (Parsed (1001 * day)),
        snap ''tank'' ''c'' (Parsed (1002 * day))],
       \<lparr>clock = c + 1, spawned = sp @ [snapshot_list_cmd ''tank'']\<rparr>)"
  by (simp add: eval_defs assms)

lemma tank_behind_target:
  "get_snapshots (listing_env tank_behind) ''backup'' \<lparr>clock = c, spawned = sp\<rparr>
    = ([snap ''backup'' ''a'' (Parsed (1000 * day))],
       \<lparr>clock = c + 1, spawned = sp @ [snapshot_list_cmd ''backup'']\<rparr>)"
  by (simp add: eval_defs tank_behind_def)

lemma tank_alone_target:
  "get_snapshots (listing_env tank_alone) ''backup'' \<lparr>clock = c, spawned = sp\<rparr>
    = ([], \<lparr>clock = c + 1, spawned = sp @ [snapshot_list_cmd ''backup'']\<rparr>)"
  by (simp add: eval_defs tank_alone_def)

lemma tank_probe:
  "subprocess_run (listing_env f) None [''zfs'', ''list'', ''backup''] \<lparr>clock = c, spawned = sp\<rparr>
     = (Completed [], \<lparr>clock = c + 1, spawned = sp @ [[''zfs'', ''list'', ''backup'']]\<rparr>)"
  by (simp add: subprocess_run_def listing_env_def user_env_def)

lemma tank_sorted:
  "sorted_reverse sort_key_of
     [snap ''tank'' ''a'' (Parsed (1000 * day)), snap ''tank'' ''b'' (Parsed (1001 * day)),
      snap ''tank'' ''c'' (Parsed (1002 * day))]
   = snap ''tank'' ''c'' (Parsed (1002 * day))
     # [snap ''tank'' ''b'' (Parsed (1001 * day)), snap ''tank'' ''a'' (Parsed (1000 * day))]"
  by (simp add: sorted_reverse_def sort_key_of_def snap_def day_def)

lemmas latest_common_eval = latest_common_def common_names_def by_name_def full_name_def
  snap_def datetime_min_def day_def listing_env_def user_env_def

lemma tank_abc_common:
  "get_latest_common_snapshot (listing_env tank_abc) True ''tank'' ''backup''
     \<lparr>clock = c, spawned = sp\<rparr>
   = (Some (full_name (snap ''tank'' ''c'' (Parsed (1002 * day)))),
      \<lparr>clock = c + 1 + 1, spawned = sp @ [snapshot_list_cmd ''tank'', snapshot_list_cmd ''backup'']\<rparr>)"
proof -
  have "latest_common (listing_env tank_abc)
          [snap ''tank'' ''a'' (Parsed (1000 * day)), snap ''tank'' ''b'' (Parsed (1001 * day)),
           snap ''tank'' ''c'' (Parsed (1002 * day))]
          [snap ''backup'' ''a'' (Parsed (1000 * day)), snap ''backup'' ''c'' (Parsed (1002 * day))]
        = Some (full_name (snap ''tank'' ''c'' (Parsed (1002 * day))))"
    by (simp add: latest_common_eval)
  then show ?thesis
    by (simp add: get_latest_common_snapshot_def tank_abc_source tank_abc_target)
qed

lemma tank_behind_common:
  "get_latest_common_snapshot (listing_env tank_behind) True ''tank'' ''backup''
     \<lparr>clock = c, spawned = sp\<rparr>
   = (Some ''tank@a'',
      \<lparr>clock = c + 1 + 1, spawned = sp @ [snapshot_list_cmd ''tank'', snapshot_list_cmd ''backup'']\<rparr>)"
proof -
  have "latest_common (listing_env tank_behind)
          [snap ''tank'' ''a'' (Parsed (1000 * day)), snap ''tank'' ''b'' (Parsed (1001 * day)),
           snap ''tank'' ''c'' (Parsed (1002 * day))]
          [snap ''backup'' ''a'' (Parsed (1000 * day))]
        = Some ''tank@a''"
    by (simp add: latest_common_eval)
  then show ?thesis
    by (simp add: get_latest_common_snapshot_def tank_source_listing tank_behind_def
        tank_behind_target)
qed

lemma tank_alone_common:
  "get_latest_common_snapshot (listing_env tank_alone) True ''tank'' ''backup''
     \<lparr>clock = c, spawned = sp\<rparr>
   = (None,
      \<lparr>clock = c + 1 + 1, spawned = sp @ [snapshot_list_cmd ''tank'', snapshot_list_cmd ''backup'']\<rparr>)"
proof -
  have "latest_common (listing_env tank_alone)
          [snap ''tank'' ''a'' (Parsed (1000 * day)), snap ''tank'' ''b'' (Parsed (1001 * day)),
           snap ''tank'' ''c'' (Parsed (1002 * day))] [] = None"
    by (simp add: latest_common_eval)
  then show ?thesis
    by (simp add: get_latest_common_snapshot_def tank_source_listing tank_alone_def
        tank_alone_target)
qed

lemma safe_tank: "is_safe_zfs_token ''tank''"
  by code_simp

lemma safe_backup: "is_safe_zfs_token ''backup''"
  by code_simp

theorem backup_noop_when_latest_is_common_witness:
  "is_safe_zfs_token ''tank'' \<and> is_safe_zfs_token ''backup''
   \<and> perform_backup (listing_env tank_abc) True ''tank'' ''backup''
       (fresh_world, new_PrivilegeManager)
     = ((True, ''Latest snapshot tank@c already exists in target pool''),
        \<lparr>clock = 1004,
         spawned = [[''zfs'', ''list'', ''backup''], snapshot_list_cmd ''tank'',
                    snapshot_list_cmd ''tank'', snapshot_list_cmd ''backup'']\<rparr>,
        new_PrivilegeManager)
   \<and> \<not> list_ex is_transfer
         [[''zfs'', ''list'', ''backup''], snapshot_list_cmd ''tank'',
          snapshot_list_cmd ''tank'', snapshot_list_cmd ''backup'']"
proof -
  let ?src = "[snap ''tank'' ''a'' (Parsed (1000 * day)), snap ''tank'' ''b'' (Parsed (1001 * day)),
      snap ''tank'' ''c'' (Parsed (1002 * day))]"
  have h3: "subprocess_run (listing_env tank_abc) None [''zfs'', ''list'', ''backup''] fresh_world
     = (Completed [], \<lparr>clock = 1001, spawned = [[''zfs'', ''list'', ''backup'']]\<rparr>)"
    using tank_probe [of tank_abc 1000 "[]"] by (simp add: fresh_world_def)
  have h4: "get_snapshots (listing_env tank_abc) ''tank''
              \<lparr>clock = 1001, spawned = [[''zfs'', ''list'', ''backup'']]\<rparr>
            = (?src, \<lparr>clock = 1002, spawned = [[''zfs'', ''list'', ''backup''],
                                                snapshot_list_cmd ''tank'']\<rparr>)"
    using tank_abc_source [of 1001 "[[''zfs'', ''list'', ''backup'']]"] by simp
  have h5: "?src \<noteq> []" by simp
  have h7: "get_latest_common_snapshot (listing_env tank_abc) True ''tank'' ''backup''
              \<lparr>clock = 1002, spawned = [[''zfs'', ''list'', ''backup''], snapshot_list_cmd ''tank'']\<rparr>
            = (Some (full_name (snap ''tank'' ''c'' (Parsed (1002 * day)))),
               \<lparr>clock = 1004,
                spawned = [[''zfs'', ''list'', ''backup''], snapshot_list_cmd ''tank'',
                           snapshot_list_cmd ''tank'', snapshot_list_cmd ''backup'']\<rparr>)"
    using tank_abc_common [of 1002 "[[''zfs'', ''list'', ''backup''], snapshot_list_cmd ''tank'']"]
    by simp
  have fn: "full_name (snap ''tank'' ''c'' (Parsed (1002 * day))) = ''tank@c''"
    by (simp add: full_name_def snap_def)
  from backup_noop_when_latest_is_common [OF safe_tank safe_backup h3 h4 h5 tank_sorted h7,
      of new_PrivilegeManager] safe_tank safe_backup
  show ?thesis by (simp add: fn fresh_world_def)
qed

theorem backup_send_always_rejected_witness:
  "is_safe_zfs_token ''tank'' \<and> is_safe_zfs_token ''backup''
   \<and> get_latest_common_snapshot (listing_env tank_behind) True ''tank'' ''backup''
        \<lparr>clock = 1002, spawned = [[''zfs'', ''list'', ''backup''], snapshot_list_cmd ''tank'']\<rparr>
      = (Some ''tank@a'',
         \<lparr>clock = 1004,
          spawned = [[''zfs'', ''list'', ''backup''], snapshot_list_cmd ''tank'',
                     snapshot_list_cmd ''tank'', snapshot_list_cmd ''backup'']\<rparr>)
   \<and> perform_backup (listing_env tank_behind) True ''tank'' ''backup''
       (fresh_world, new_PrivilegeManager)
     = ((False, ''Invalid snapshot identifier''),
        \<lparr>clock = 1004,
         spawned = [[''zfs'', ''list'', ''backup''], snapshot_list_cmd ''tank'',
                    snapshot_list_cmd ''tank'', snapshot_list_cmd ''backup'']\<rparr>,
        new_PrivilegeManager)
   \<and> get_latest_common_snapshot (listing_env tank_alone) True ''tank'' ''backup''
        \<lparr>clock = 1002, spawned = [[''zfs'', ''list'', ''backup''], snapshot_list_cmd ''tank'']\<rparr>
      = (None,
         \<lparr>clock = 1004,
          spawned = [[''zfs'', ''list'', ''backup''], snapshot_list_cmd ''tank'',
                     snapshot_list_cmd ''tank'', snapshot_list_cmd ''backup'']\<rparr>)
   \<and> perform_backup (listing_env tank_alone) True ''tank'' ''backup''
       (fresh_world, new_PrivilegeManager)
     = ((False, ''Invalid snapshot identifier''),
        \<lparr>clock = 1004,
         spawned = [[''zfs'', ''list'', ''backup''], snapshot_list_cmd ''tank'',
                    snapshot_list_cmd ''tank'', snapshot_list_cmd ''backup'']\<rparr>,
        new_PrivilegeManager)"
proof -
  let ?src = "[snap ''tank'' ''a'' (Parsed (1000 * day)), snap ''tank'' ''b'' (Parsed (1001 * day)),
      snap ''tank'' ''c'' (Parsed (1002 * day))]"
  let ?w1 = "\<lparr>clock = 1001, spawned = [[''zfs'', ''list'', ''backup'']]\<rparr>"
  let ?w2 = "\<lparr>clock = 1002, spawned = [[''zfs'', ''list'', ''backup''], snapshot_list_cmd ''tank'']\<rparr>"
  let ?w3 = "\<lparr>clock = 1004,
          spawned = [[''zfs'', ''list'', ''backup''], snapshot_list_cmd ''tank'',
                     snapshot_list_cmd ''tank'', snapshot_list_cmd ''backup'']\<rparr>"
  have h3: "subprocess_run (listing_env f) None [''zfs'', ''list'', ''backup''] fresh_world
     = (Completed [], ?w1)" for f
    using tank_probe [of f 1000 "[]"] by (simp add: fresh_world_def)
  have b4: "get_snapshots (listing_env tank_behind) ''tank'' ?w1 = (?src, ?w2)"
    using tank_source_listing [of tank_behind 1001 "[[''zfs'', ''list'', ''backup'']]"]
    by (simp add: tank_behind_def)
  have a4: "get_snapshots (listing_env tank_alone) ''tank'' ?w1 = (?src, ?w2)"
    using tank_source_listing [of tank_alone 1001 "[[''zfs'', ''list'', ''backup'']]"]
    by (simp add: tank_alone_def)
  have h5: "?src \<noteq> []" by simp
  have b7: "get_latest_common_snapshot (listing_env tank_behind) True ''tank'' ''backup'' ?w2
            = (Some ''tank@a'', ?w3)"
    using tank_behind_common [of 1002 "[[''zfs'', ''list'', ''backup''], snapshot_list_cmd ''tank'']"]
    by simp
  have a7: "get_latest_common_snapshot (listing_env tank_alone) True ''tank'' ''backup'' ?w2
            = (None, ?w3)"
    using tank_alone_common [of 1002 "[[''zfs'', ''list'', ''backup''], snapshot_list_cmd ''tank'']"]
    by simp
  have b8: "Some ''tank@a'' \<noteq> Some (full_name (snap ''tank'' ''c'' (Parsed (1002 * day))))"
    by (simp add: full_name_def snap_def)
  have a8: "None \<noteq> Some (full_name (snap ''tank'' ''c'' (Parsed (1002 * day))))"
    by simp
  from backup_send_always_rejected [OF safe_tank safe_backup h3 b4 h5 tank_sorted b7 b8,
      of new_PrivilegeManager]
  have rb: "perform_backup (listing_env tank_behind) True ''tank'' ''backup''
       (fresh_world, new_PrivilegeManager)
     = ((False, ''Invalid snapshot identifier''), ?w3, new_PrivilegeManager)"
    by simp
  from backup_send_always_rejected [OF safe_tank safe_backup h3 a4 h5 tank_sorted a7 a8,
      of new_PrivilegeManager]
  have ra: "perform_backup (listing_env tank_alone) True ''tank'' ''backup''
       (fresh_world, new_PrivilegeManager)
     = ((False, ''Invalid snapshot identifier''), ?w3, new_PrivilegeManager)"
    by simp
  from safe_tank safe_backup b7 rb a7 ra show ?thesis by blast
qed

end
